theory Spec2Isabelle
  imports Main
begin

section \<open>Data model\<close>

text \<open>
  Booking status, the \<^verbatim>\<open>ENUM('pending', 'confirmed', 'cancelled', 'completed', 'no-show')\<close>
  column of the Booking model.
\<close>

datatype status = Pending | Confirmed | Cancelled | Completed | NoShow

text \<open>
  A JavaScript \<^verbatim>\<open>Date\<close> is modelled by its local time value: milliseconds counted from local
  midnight of 1970-01-01, every local day taken as 86400000 ms long (daylight-saving shifts
  are not modelled). Identifiers (UUIDs in the source) are natural numbers.
\<close>

type_synonym timestamp = int

text \<open>
  One row of the \<^verbatim>\<open>bookings\<close> table, with the columns the Booking model declares.
  The payment columns (\<^verbatim>\<open>totalAmount\<close>, a floating-point product, \<^verbatim>\<open>paymentStatus\<close>,
  \<^verbatim>\<open>paymentId\<close>) and the ORM's own \<^verbatim>\<open>createdAt\<close>/\<^verbatim>\<open>updatedAt\<close> stamps are left out:
  no operation modelled here reads them.
\<close>

record booking =
  b_id :: nat
  patientId :: nat
  therapistId :: nat
  sessionDate :: timestamp
  sessionTime :: string
  duration :: int
  status :: status
  sessionType :: string
  meetingLink :: "string option"
  bookingNotes :: "string option"
  cancellationReason :: "string option"
  cancelledAt :: "timestamp option"
  cancelledBy :: "nat option"
  reminderSent :: bool

section \<open>Time-of-day strings\<close>

text \<open>\<^verbatim>\<open>s.split(':')\<close>: the pieces of \<open>s\<close> between colons; the empty string gives one empty piece.\<close>

fun split_colon :: "string \<Rightarrow> string list" where
  "split_colon [] = [[]]"
| "split_colon (c # cs) =
     (if c = CHR '':'' then [] # split_colon cs
      else (case split_colon cs of
              [] \<Rightarrow> [[c]]
            | p # ps \<Rightarrow> (c # p) # ps))"

definition isDigit :: "char \<Rightarrow> bool" where
  "isDigit c \<longleftrightarrow> 48 \<le> (of_char c :: nat) \<and> (of_char c :: nat) \<le> 57"

definition digitVal :: "char \<Rightarrow> int" where
  "digitVal c = int (of_char c) - 48"

text \<open>
  \<^verbatim>\<open>Number(s)\<close> on the strings made of decimal digits only, at most 14 of them; the empty
  string is 0, as in JavaScript. With at most 14 digits in each piece every number the slot
  arithmetic forms from them (\<open>h * 60 + m\<close>, \<open>time + 60\<close>) stays below \<open>2^53\<close>, where the
  doubles of JavaScript are exact integers (\<open>minutesOf_exact\<close> below), so that \<open>int\<close>
  computes what the code computes. Every other string (NaN, and the longer, signed,
  fractional, exponent, radix-prefixed and blank-padded literals that \<^verbatim>\<open>Number\<close> also reads)
  is outside this embedding: \<open>None\<close>.
\<close>

definition Number :: "string \<Rightarrow> int option" where
  "Number s =
     (if list_all isDigit s \<and> length s \<le> 14
      then Some (foldl (\<lambda>n c. 10 * n + digitVal c) 0 s)
      else None)"

text \<open>
  \<^verbatim>\<open>const [h, m] = s.split(':').map(Number); h * 60 + m\<close>: minutes since midnight. Further
  pieces (the seconds of a TIME column) are ignored by the destructuring. With fewer than two
  pieces \<open>m\<close> is undefined and the sum is NaN, which is outside the embedding as well.
\<close>

definition minutesOf :: "string \<Rightarrow> int option" where
  "minutesOf s =
     (case map Number (split_colon s) of
        Some h # Some m # _ \<Rightarrow> Some (h * 60 + m)
      | _ \<Rightarrow> None)"

text \<open>
  The \<^verbatim>\<open>sessionTime\<close> column is \<^verbatim>\<open>DataTypes.TIME\<close>: the store reads an input string as a time of
  day, compares times, and returns a stored time as \<^verbatim>\<open>HH:MM:SS\<close>. \<open>pgTime\<close> is that reading
  for the inputs \<^verbatim>\<open>HH:MM\<close> and \<^verbatim>\<open>HH:MM:SS\<close> up to 23:59:59; the other forms the store accepts
  or refuses are outside this embedding: \<open>None\<close>.
\<close>

definition twoDigits :: "char \<Rightarrow> char \<Rightarrow> int \<Rightarrow> bool" where
  "twoDigits a b bound \<longleftrightarrow> isDigit a \<and> isDigit b \<and> 10 * digitVal a + digitVal b \<le> bound"

fun pgTime :: "string \<Rightarrow> string option" where
  "pgTime [h1, h2, c1, m1, m2] =
     (if twoDigits h1 h2 23 \<and> c1 = CHR '':'' \<and> twoDigits m1 m2 59
      then Some ([h1, h2, c1, m1, m2] @ '':00'') else None)"
| "pgTime [h1, h2, c1, m1, m2, c2, s1, s2] =
     (if twoDigits h1 h2 23 \<and> c1 = CHR '':'' \<and> twoDigits m1 m2 59 \<and>
         c2 = CHR '':'' \<and> twoDigits s1 s2 59
      then Some [h1, h2, c1, m1, m2, c2, s1, s2] else None)"
| "pgTime _ = None"

text \<open>\<^verbatim>\<open>n.toString()\<close> of a non-negative integer, in decimal.\<close>

fun toString :: "nat \<Rightarrow> string" where
  "toString n =
     (if n < 10 then [char_of (48 + n)]
      else toString (n div 10) @ [char_of (48 + n mod 10)])"

declare toString.simps [simp del]

text \<open>\<^verbatim>\<open>s.padStart(2, '0')\<close>.\<close>

definition padStart2 :: "string \<Rightarrow> string" where
  "padStart2 s = replicate (2 - length s) (CHR ''0'') @ s"

text \<open>
  The slot label built in the loop body: \<^verbatim>\<open>Math.floor(time / 60)\<close> and \<^verbatim>\<open>time % 60\<close>, each
  padded to two digits. The loop only reaches it with \<open>time \<ge> 0\<close>.
\<close>

definition timeString :: "int \<Rightarrow> string" where
  "timeString time =
     padStart2 (toString (nat (time div 60))) @ '':'' @ padStart2 (toString (nat (time mod 60)))"

section \<open>Slot generation (getTherapistAvailability)\<close>

definition slotDuration :: int where
  "slotDuration = 60"

text \<open>
  The callback of \<^verbatim>\<open>existingBookings.some\<close>: does the slot starting at \<open>time\<close> overlap the
  booking? The \<^verbatim>\<open>duration\<close> column is a 32-bit INTEGER, so \<open>bookedEnd\<close> is an exact sum
  as well.
\<close>

definition slotOverlaps :: "int \<Rightarrow> booking \<Rightarrow> bool option" where
  "slotOverlaps time bk =
     (case minutesOf (sessionTime bk) of
        None \<Rightarrow> None
      | Some bookedStart \<Rightarrow>
          (let bookedEnd = bookedStart + duration bk
           in Some (time < bookedEnd \<and> time + slotDuration > bookedStart)))"

text \<open>\<^verbatim>\<open>Array.prototype.some\<close>, stopping at the first element the callback accepts.\<close>

fun some_js :: "('a \<Rightarrow> bool option) \<Rightarrow> 'a list \<Rightarrow> bool option" where
  "some_js f [] = Some False"
| "some_js f (x # xs) =
     (case f x of
        None \<Rightarrow> None
      | Some True \<Rightarrow> Some True
      | Some False \<Rightarrow> some_js f xs)"

text \<open>
  The \<^verbatim>\<open>for (let time = startTime; time + slotDuration <= endTime; time += slotDuration)\<close>
  loop, returning the labels pushed to \<^verbatim>\<open>availableSlots\<close> from \<open>time\<close> on.
\<close>

function slotLoop :: "booking list \<Rightarrow> int \<Rightarrow> int \<Rightarrow> string list option" where
  "slotLoop existingBookings endTime time =
     (if time + slotDuration \<le> endTime then
        (case some_js (slotOverlaps time) existingBookings of
           None \<Rightarrow> None
         | Some isBooked \<Rightarrow>
             (case slotLoop existingBookings endTime (time + slotDuration) of
                None \<Rightarrow> None
              | Some rest \<Rightarrow> Some (if \<not> isBooked then timeString time # rest else rest)))
      else Some [])"
  by pat_completeness auto
termination
  by (relation "measure (\<lambda>(bs, e, t). nat (e - t))") (auto simp: slotDuration_def)

declare slotLoop.simps [simp del]

text \<open>Lines 252-276 of the controller: parse the working hours, then run the loop.\<close>

definition availableSlots :: "string \<Rightarrow> string \<Rightarrow> booking list \<Rightarrow> string list option" where
  "availableSlots start endStr existingBookings =
     (case minutesOf start of
        None \<Rightarrow> None
      | Some startTime \<Rightarrow>
          (case minutesOf endStr of
             None \<Rightarrow> None
           | Some endTime \<Rightarrow> slotLoop existingBookings endTime startTime))"

section \<open>Dates\<close>

definition msPerDay :: int where
  "msPerDay = 86400000"

text \<open>\<^verbatim>\<open>d.getDay()\<close>: 0 is Sunday; 1970-01-01 was a Thursday.\<close>

definition getDay :: "timestamp \<Rightarrow> nat" where
  "getDay d = nat ((4 + d div msPerDay) mod 7)"

text \<open>\<^verbatim>\<open>d.setHours(0, 0, 0, 0)\<close> and \<^verbatim>\<open>d.setHours(23, 59, 59, 999)\<close>.\<close>

definition startOfDay :: "timestamp \<Rightarrow> timestamp" where
  "startOfDay d = (d div msPerDay) * msPerDay"

definition endOfDay :: "timestamp \<Rightarrow> timestamp" where
  "endOfDay d = (d div msPerDay) * msPerDay + (msPerDay - 1)"

definition dayNames :: "string list" where
  "dayNames = [''sunday'', ''monday'', ''tuesday'', ''wednesday'', ''thursday'', ''friday'', ''saturday'']"

text \<open>
  \<^verbatim>\<open>[...][date.getDay()]\<close> for a \<^verbatim>\<open>Date\<close> that may be invalid (\<open>None\<close>): \<^verbatim>\<open>getDay()\<close> is then
  NaN and the array read is \<^verbatim>\<open>undefined\<close> (\<open>None\<close>).
\<close>

definition dayOfWeekOf :: "timestamp option \<Rightarrow> string option" where
  "dayOfWeekOf date = (case date of None \<Rightarrow> None | Some d \<Rightarrow> Some (dayNames ! getDay d))"

text \<open>A property key: \<^verbatim>\<open>obj[undefined]\<close> reads the property named \<^verbatim>\<open>"undefined"\<close>.\<close>

definition propertyKey :: "string option \<Rightarrow> string" where
  "propertyKey k = (case k of None \<Rightarrow> ''undefined'' | Some name \<Rightarrow> name)"

section \<open>Therapists, users, sessions and the database\<close>

record dayAvailability =
  av_start :: string
  av_end :: string
  av_available :: bool

text \<open>The Therapist model: \<^verbatim>\<open>availability\<close> is a JSONB object keyed by day name.\<close>

record therapist =
  t_id :: nat
  userId :: nat
  isVerified :: bool
  availability :: "string \<rightharpoonup> dayAvailability"

datatype role = Patient | TherapistRole | Admin

text \<open>\<^verbatim>\<open>req.user\<close>, as the authentication middleware attaches it.\<close>

record user =
  u_id :: nat
  u_role :: role

record session =
  s_id :: nat
  bookingId :: nat
  s_patientId :: nat
  s_therapistId :: nat
  s_startTime :: timestamp
  therapistNotes :: "string option"
  treatmentPlan :: "string option"
  goals :: "string list"
  isCompleted :: bool

record database =
  bookings :: "booking list"
  therapists :: "therapist list"
  sessions :: "session list"

text \<open>
  What a handler answers when it does not succeed: the 400, 403 and 404 replies with their
  message, the 400 of the validation middleware (which carries the validator's error array),
  and \<open>ServerError\<close> for an exception (of the store or of the model's validation) that the
  handler's \<^verbatim>\<open>catch\<close> hands to \<^verbatim>\<open>next(error)\<close>; nothing is written then.
\<close>

datatype error =
    BadRequest string
  | Forbidden string
  | NotFound string
  | ValidationFailed
  | ServerError

definition findBookingByPk :: "database \<Rightarrow> nat \<Rightarrow> booking option" where
  "findBookingByPk db i = find (\<lambda>bk. b_id bk = i) (bookings db)"

definition findTherapistByPk :: "database \<Rightarrow> nat \<Rightarrow> therapist option" where
  "findTherapistByPk db i = find (\<lambda>th. t_id th = i) (therapists db)"

text \<open>\<^verbatim>\<open>Therapist.findOne({ where: { userId: req.user.id } })\<close>.\<close>

definition findTherapistByUser :: "database \<Rightarrow> nat \<Rightarrow> therapist option" where
  "findTherapistByUser db uid = find (\<lambda>th. userId th = uid) (therapists db)"

text \<open>\<^verbatim>\<open>booking.save()\<close> / \<^verbatim>\<open>booking.update(...)\<close>: the row with the booking's key is replaced.\<close>

definition saveBooking :: "database \<Rightarrow> booking \<Rightarrow> database" where
  "saveBooking db bk' =
     db\<lparr>bookings := map (\<lambda>bk. if b_id bk = b_id bk' then bk' else bk) (bookings db)\<rparr>"

definition activeStatus :: "status \<Rightarrow> bool" where
  "activeStatus st \<longleftrightarrow> st = Pending \<or> st = Confirmed"

text \<open>
  The authorization test shared by updateBooking and cancelBooking: admins, the booking's patient
  and the booking's therapist pass.
\<close>

definition notAuthorized :: "database \<Rightarrow> user \<Rightarrow> booking \<Rightarrow> bool" where
  "notAuthorized db usr bk \<longleftrightarrow>
     u_role usr \<noteq> Admin \<and>
     patientId bk \<noteq> u_id usr \<and>
     (case findTherapistByUser db (u_id usr) of
        None \<Rightarrow> True
      | Some th \<Rightarrow> therapistId bk \<noteq> t_id th)"

section \<open>Availability query (getTherapistAvailability)\<close>

text \<open>
  The \<^verbatim>\<open>date\<close> query parameter as the controller receives it: absent, \<^verbatim>\<open>null\<close> or a \<^verbatim>\<open>Date\<close>
  (what the route's \<^verbatim>\<open>toDate()\<close> sanitizer leaves), or a string.
\<close>

datatype qvalue = Undefined | Null | Str string | DateVal timestamp

datatype availabilityData =
    NotAvailable string
  | Available qvalue string "string list" "string \<times> string"

text \<open>
  The bookings of \<^verbatim>\<open>Booking.findAll\<close>: this therapist, \<^verbatim>\<open>sessionDate\<close> between the start and
  the end of the requested day (both inclusive), status pending or confirmed.
\<close>

definition existingBookingsOn :: "database \<Rightarrow> nat \<Rightarrow> timestamp \<Rightarrow> booking list" where
  "existingBookingsOn db i requestedDate =
     filter (\<lambda>bk. therapistId bk = i \<and>
                  startOfDay requestedDate \<le> sessionDate bk \<and>
                  sessionDate bk \<le> endOfDay requestedDate \<and>
                  activeStatus (status bk))
            (bookings db)"

text \<open>
  The controller after the \<^verbatim>\<open>!date\<close> test, with \<open>requestedDate = new Date(date)\<close>. The
  \<open>newDate\<close> parameter of the handlers is JavaScript's date parser: \<open>None\<close> is an invalid
  \<^verbatim>\<open>Date\<close>. An invalid \<^verbatim>\<open>Date\<close> can get past the day lookup only when the schedule has a
  property named \<^verbatim>\<open>"undefined"\<close>; the range query then has no bounds to run with and the
  handler ends in its \<^verbatim>\<open>catch\<close>. The outer \<open>None\<close> is a schedule or booking time outside
  the strings \<open>minutesOf\<close> reads.
\<close>

definition availabilityFor ::
  "database \<Rightarrow> nat \<Rightarrow> qvalue \<Rightarrow> timestamp option \<Rightarrow> (error + availabilityData) option" where
  "availabilityFor db i date requestedDate =
     (case findTherapistByPk db i of
        None \<Rightarrow> Some (Inl (NotFound ''Therapist not found''))
      | Some th \<Rightarrow>
          (let dayOfWeek = dayOfWeekOf requestedDate
           in case availability th (propertyKey dayOfWeek) of
                None \<Rightarrow> Some (Inr (NotAvailable ''Therapist is not available on this day''))
              | Some av \<Rightarrow>
                  if \<not> av_available av
                  then Some (Inr (NotAvailable ''Therapist is not available on this day''))
                  else (case requestedDate of
                          None \<Rightarrow> Some (Inl ServerError)
                        | Some d \<Rightarrow>
                            (case availableSlots (av_start av) (av_end av)
                                    (existingBookingsOn db i d) of
                               None \<Rightarrow> None
                             | Some slots \<Rightarrow>
                                 Some (Inr (Available date (propertyKey dayOfWeek) slots
                                              (av_start av, av_end av)))))))"

fun getTherapistAvailability ::
  "(string \<Rightarrow> timestamp option) \<Rightarrow> database \<Rightarrow> nat \<Rightarrow> qvalue
     \<Rightarrow> (error + availabilityData) option" where
  "getTherapistAvailability newDate db i Undefined =
     Some (Inl (BadRequest ''Date parameter is required (YYYY-MM-DD)''))"
| "getTherapistAvailability newDate db i Null =
     Some (Inl (BadRequest ''Date parameter is required (YYYY-MM-DD)''))"
| "getTherapistAvailability newDate db i (Str s) =
     (if s = [] then Some (Inl (BadRequest ''Date parameter is required (YYYY-MM-DD)''))
      else availabilityFor db i (Str s) (newDate s))"
| "getTherapistAvailability newDate db i (DateVal d) =
     availabilityFor db i (DateVal d) (Some d)"

text \<open>
  The route \<^verbatim>\<open>GET /:id/availability\<close>: the chain \<^verbatim>\<open>query('date').isISO8601().toDate()\<close>,
  the \<^verbatim>\<open>validate\<close> middleware, then the controller. The validator is a parameter; the
  sanitizer replaces the parameter by the parsed \<^verbatim>\<open>Date\<close>, or by \<^verbatim>\<open>null\<close> when the string does
  not parse.
\<close>

definition toDate :: "(string \<Rightarrow> timestamp option) \<Rightarrow> string \<Rightarrow> qvalue" where
  "toDate newDate s = (case newDate s of None \<Rightarrow> Null | Some d \<Rightarrow> DateVal d)"

definition availabilityRoute ::
  "(string \<Rightarrow> bool) \<Rightarrow> (string \<Rightarrow> timestamp option) \<Rightarrow> database \<Rightarrow> nat \<Rightarrow> string option
     \<Rightarrow> (error + availabilityData) option" where
  "availabilityRoute isISO8601 newDate db i rawDate =
     (case rawDate of
        None \<Rightarrow> Some (Inl ValidationFailed)
      | Some s \<Rightarrow>
          if \<not> isISO8601 s then Some (Inl ValidationFailed)
          else getTherapistAvailability newDate db i (toDate newDate s))"

section \<open>Booking controller\<close>

text \<open>
  The body of \<^verbatim>\<open>POST /bookings\<close> as createBooking receives it. The route's chain
  \<^verbatim>\<open>body('sessionDate').isISO8601().toDate()\<close> replaces \<^verbatim>\<open>sessionDate\<close> by a \<^verbatim>\<open>Date\<close> (or by
  \<^verbatim>\<open>null\<close>) before the handler runs, so a routed request carries \<open>DateVal\<close> or \<open>Null\<close> there; a
  direct call may pass a string. \<open>None\<close> is a field left out of the request.
\<close>

record bookingRequest =
  req_therapistId :: nat
  req_sessionDate :: qvalue
  req_sessionTime :: string
  req_duration :: "int option"
  req_sessionType :: "string option"
  req_notes :: "string option"

text \<open>
  A value inside a template literal, \<^verbatim>\<open>`${v}`\<close>. For a \<^verbatim>\<open>Date\<close> this is
  \<^verbatim>\<open>Date.prototype.toString()\<close>, the \<open>dateToString\<close> parameter of the handler.
\<close>

definition templateString :: "(timestamp \<Rightarrow> string) \<Rightarrow> qvalue \<Rightarrow> string" where
  "templateString dateToString v =
     (case v of
        Undefined \<Rightarrow> ''undefined''
      | Null \<Rightarrow> ''null''
      | Str s \<Rightarrow> s
      | DateVal d \<Rightarrow> dateToString d)"

text \<open>
  \<^verbatim>\<open>Booking.findOne\<close> of the conflict check: a booking of the therapist, dated within the day
  of \<open>sessionDateTime\<close>, pending or confirmed, whose \<^verbatim>\<open>sessionTime\<close> is the time \<open>time\<close> (the
  requested one as the store reads it).
\<close>

definition conflictingBooking :: "database \<Rightarrow> nat \<Rightarrow> timestamp \<Rightarrow> string \<Rightarrow> booking option" where
  "conflictingBooking db i sessionDateTime time =
     find (\<lambda>bk. therapistId bk = i \<and>
                startOfDay sessionDateTime \<le> sessionDate bk \<and>
                sessionDate bk \<le> endOfDay sessionDateTime \<and>
                pgTime (sessionTime bk) = Some time \<and>
                activeStatus (status bk))
          (bookings db)"

text \<open>
  The row of \<^verbatim>\<open>Booking.create\<close>: \<open>newId\<close> is the key the store generates, \<open>d\<close> is
  \<^verbatim>\<open>new Date(sessionDate)\<close>, \<open>time\<close> the requested time as the store keeps it; the columns
  the handler does not set take their defaults.
\<close>

definition newBooking :: "nat \<Rightarrow> user \<Rightarrow> bookingRequest \<Rightarrow> timestamp \<Rightarrow> string \<Rightarrow> booking" where
  "newBooking newId usr body d time =
     \<lparr> b_id = newId,
       patientId = u_id usr,
       therapistId = req_therapistId body,
       sessionDate = d,
       sessionTime = time,
       duration = (case req_duration body of None \<Rightarrow> 60 | Some n \<Rightarrow> n),
       status = Pending,
       sessionType = (case req_sessionType body of None \<Rightarrow> ''video'' | Some ty \<Rightarrow> ty),
       meetingLink = None,
       bookingNotes = req_notes body,
       cancellationReason = None,
       cancelledAt = None,
       cancelledBy = None,
       reminderSent = False \<rparr>"

text \<open>
  The Booking model's validation, run by \<^verbatim>\<open>Booking.create\<close> before the insert: the duration
  is between 30 and 180, the session type is one of the enum's values.
\<close>

definition validBooking :: "booking \<Rightarrow> bool" where
  "validBooking bk \<longleftrightarrow>
     30 \<le> duration bk \<and> duration bk \<le> 180 \<and>
     (sessionType bk = ''in-person'' \<or> sessionType bk = ''video'' \<or> sessionType bk = ''phone'')"

text \<open>
  \<^verbatim>\<open>Booking.create\<close> with \<^verbatim>\<open>sessionDate: new Date(sessionDate)\<close>. An invalid \<^verbatim>\<open>Date\<close> and a
  row the model's validation refuses make the call throw. \<^verbatim>\<open>new Date(null)\<close> is the epoch,
  whose local time depends on the server's zone: outside this embedding (\<open>None\<close>).
\<close>

definition insertBooking ::
  "(string \<Rightarrow> timestamp option) \<Rightarrow> nat \<Rightarrow> database \<Rightarrow> user \<Rightarrow> bookingRequest \<Rightarrow> string
     \<Rightarrow> (error + (booking \<times> database)) option" where
  "insertBooking newDate newId db usr body time =
     (case req_sessionDate body of
        Null \<Rightarrow> None
      | Undefined \<Rightarrow> Some (Inl ServerError)
      | Str s \<Rightarrow>
          (case newDate s of
             None \<Rightarrow> Some (Inl ServerError)
           | Some d \<Rightarrow>
               if validBooking (newBooking newId usr body d time)
               then Some (Inr (newBooking newId usr body d time,
                               db\<lparr>bookings := bookings db @ [newBooking newId usr body d time]\<rparr>))
               else Some (Inl ServerError))
      | DateVal d \<Rightarrow>
          if validBooking (newBooking newId usr body d time)
          then Some (Inr (newBooking newId usr body d time,
                          db\<lparr>bookings := bookings db @ [newBooking newId usr body d time]\<rparr>))
          else Some (Inl ServerError))"

text \<open>
  createBooking. \<open>sessionDateTime\<close> is \<^verbatim>\<open>new Date(`${sessionDate}T${sessionTime}`)\<close>. The range
  query of an invalid \<^verbatim>\<open>Date\<close> cannot run and ends in the handler's \<^verbatim>\<open>catch\<close>. The outer
  \<open>None\<close> is a \<^verbatim>\<open>sessionTime\<close> outside the forms \<open>pgTime\<close> reads, or the \<^verbatim>\<open>null\<close> date above.
\<close>

definition createBooking ::
  "(timestamp \<Rightarrow> string) \<Rightarrow> (string \<Rightarrow> timestamp option) \<Rightarrow> nat \<Rightarrow> database \<Rightarrow> user
     \<Rightarrow> bookingRequest \<Rightarrow> (error + (booking \<times> database)) option" where
  "createBooking dateToString newDate newId db usr body =
     (case findTherapistByPk db (req_therapistId body) of
        None \<Rightarrow> Some (Inl (NotFound ''Therapist not found''))
      | Some th \<Rightarrow>
          if \<not> isVerified th then Some (Inl (BadRequest ''Therapist is not verified''))
          else
            (let sessionDateTime =
                   newDate (templateString dateToString (req_sessionDate body) @ ''T'' @
                            req_sessionTime body);
                 dayOfWeek = dayOfWeekOf sessionDateTime
             in case availability th (propertyKey dayOfWeek) of
                  None \<Rightarrow> Some (Inl (BadRequest ''Therapist is not available on this day''))
                | Some av \<Rightarrow>
                    if \<not> av_available av
                    then Some (Inl (BadRequest ''Therapist is not available on this day''))
                    else (case sessionDateTime of
                            None \<Rightarrow> Some (Inl ServerError)
                          | Some dt \<Rightarrow>
                              (case pgTime (req_sessionTime body) of
                                 None \<Rightarrow> None
                               | Some time \<Rightarrow>
                                   (case conflictingBooking db (req_therapistId body) dt time of
                                      Some c \<Rightarrow>
                                        Some (Inl (BadRequest ''Time slot is already booked''))
                                    | None \<Rightarrow>
                                        insertBooking newDate newId db usr body time)))))"

text \<open>The body of \<^verbatim>\<open>PUT /bookings/:id\<close>.\<close>

record updateRequest =
  upd_status :: "string option"
  upd_notes :: "string option"
  upd_meetingLink :: "string option"
  upd_cancellationReason :: "string option"

text \<open>
  \<^verbatim>\<open>['pending', 'confirmed', 'cancelled', 'completed', 'no-show'].includes(status)\<close>, with the
  status the string names.
\<close>

definition statusOfString :: "string \<Rightarrow> status option" where
  "statusOfString s =
     (if s = ''pending'' then Some Pending
      else if s = ''confirmed'' then Some Confirmed
      else if s = ''cancelled'' then Some Cancelled
      else if s = ''completed'' then Some Completed
      else if s = ''no-show'' then Some NoShow
      else None)"

text \<open>A string option as a condition: \<^verbatim>\<open>undefined\<close> and the empty string are falsy.\<close>

definition truthy :: "string option \<Rightarrow> bool" where
  "truthy v \<longleftrightarrow> (case v of None \<Rightarrow> False | Some s \<Rightarrow> s \<noteq> [])"

text \<open>
  The fields of \<^verbatim>\<open>allowedUpdates\<close> left after the undefined ones are deleted, applied to the
  booking in the order the handler builds them.
\<close>

definition applyUpdates :: "timestamp \<Rightarrow> user \<Rightarrow> updateRequest \<Rightarrow> booking \<Rightarrow> booking" where
  "applyUpdates now usr body bk =
     (let bk1 = (case upd_notes body of None \<Rightarrow> bk | Some n \<Rightarrow> bk\<lparr>bookingNotes := Some n\<rparr>);
          bk2 = (case upd_meetingLink body of None \<Rightarrow> bk1 | Some l \<Rightarrow> bk1\<lparr>meetingLink := Some l\<rparr>)
      in case upd_status body of
           None \<Rightarrow> bk2
         | Some s \<Rightarrow>
             (if s = [] then bk2
              else case statusOfString s of
                     None \<Rightarrow> bk2
                   | Some st \<Rightarrow>
                       (let bk3 = bk2\<lparr>status := st\<rparr>
                        in if st = Cancelled
                           then (let bk4 = bk3\<lparr>cancelledAt := Some now, cancelledBy := Some (u_id usr)\<rparr>
                                 in if truthy (upd_cancellationReason body)
                                    then bk4\<lparr>cancellationReason := upd_cancellationReason body\<rparr>
                                    else bk4)
                           else bk3)))"

definition updateBooking ::
  "timestamp \<Rightarrow> database \<Rightarrow> user \<Rightarrow> nat \<Rightarrow> updateRequest \<Rightarrow> error + (booking \<times> database)" where
  "updateBooking now db usr i body =
     (case findBookingByPk db i of
        None \<Rightarrow> Inl (NotFound ''Booking not found'')
      | Some bk \<Rightarrow>
          if notAuthorized db usr bk then Inl (Forbidden ''Not authorized to update this booking'')
          else (let bk' = applyUpdates now usr body bk
                in Inr (bk', saveBooking db bk')))"

definition cancelBooking ::
  "timestamp \<Rightarrow> database \<Rightarrow> user \<Rightarrow> nat \<Rightarrow> string option \<Rightarrow> error + (booking \<times> database)" where
  "cancelBooking now db usr i reason =
     (case findBookingByPk db i of
        None \<Rightarrow> Inl (NotFound ''Booking not found'')
      | Some bk \<Rightarrow>
          if notAuthorized db usr bk then Inl (Forbidden ''Not authorized to cancel this booking'')
          else if status bk = Cancelled then Inl (BadRequest ''Booking is already cancelled'')
          else if status bk = Completed then Inl (BadRequest ''Cannot cancel a completed booking'')
          else (let bk1 = bk\<lparr>status := Cancelled, cancelledAt := Some now,
                              cancelledBy := Some (u_id usr)\<rparr>;
                    bk2 = (if truthy reason then bk1\<lparr>cancellationReason := reason\<rparr> else bk1)
                in Inr (bk2, saveBooking db bk2)))"

section \<open>No-show sweep (markNoShows)\<close>

text \<open>
  \<^verbatim>\<open>yesterday\<close>: the current time moved one day back, then set to 23:59:59.999.
\<close>

definition yesterdayEnd :: "timestamp \<Rightarrow> timestamp" where
  "yesterdayEnd now = endOfDay (now - msPerDay)"

text \<open>
  \<^verbatim>\<open>Booking.update({ status: 'no-show' }, { where: ... })\<close>: every row the condition selects
  gets the new status.
\<close>

definition markNoShows :: "timestamp \<Rightarrow> database \<Rightarrow> database" where
  "markNoShows now db =
     db\<lparr>bookings :=
          map (\<lambda>bk. if sessionDate bk < yesterdayEnd now \<and> activeStatus (status bk)
                    then bk\<lparr>status := NoShow\<rparr> else bk)
              (bookings db)\<rparr>"

section \<open>Session controller (createSession)\<close>

record sessionRequest =
  sreq_bookingId :: nat
  sreq_startTime :: "timestamp option"
  sreq_therapistNotes :: "string option"
  sreq_treatmentPlan :: "string option"
  sreq_goals :: "string list option"

definition findSessionByBooking :: "database \<Rightarrow> nat \<Rightarrow> session option" where
  "findSessionByBooking db i = find (\<lambda>se. bookingId se = i) (sessions db)"

definition createSession ::
  "timestamp \<Rightarrow> nat \<Rightarrow> database \<Rightarrow> user \<Rightarrow> sessionRequest \<Rightarrow> error + (session \<times> database)" where
  "createSession now newId db usr body =
     (case findBookingByPk db (sreq_bookingId body) of
        None \<Rightarrow> Inl (NotFound ''Booking not found'')
      | Some bk \<Rightarrow>
          if (case findTherapistByUser db (u_id usr) of
                None \<Rightarrow> True
              | Some th \<Rightarrow> therapistId bk \<noteq> t_id th)
          then Inl (Forbidden ''Only the assigned therapist can create a session'')
          else if status bk \<noteq> Confirmed
          then Inl (BadRequest ''Booking must be confirmed to create a session'')
          else (case findSessionByBooking db (sreq_bookingId body) of
                  Some existing \<Rightarrow> Inl (BadRequest ''Session already exists for this booking'')
                | None \<Rightarrow>
                    (let se = \<lparr> s_id = newId,
                                 bookingId = sreq_bookingId body,
                                 s_patientId = patientId bk,
                                 s_therapistId = therapistId bk,
                                 s_startTime = (case sreq_startTime body of
                                                None \<Rightarrow> now | Some t \<Rightarrow> t),
                                 therapistNotes = sreq_therapistNotes body,
                                 treatmentPlan = sreq_treatmentPlan body,
                                 goals = (case sreq_goals body of None \<Rightarrow> [] | Some g \<Rightarrow> g),
                                 isCompleted = False \<rparr>;
                         db1 = db\<lparr>sessions := sessions db @ [se]\<rparr>
                     in Inr (se, saveBooking db1 (bk\<lparr>status := Completed\<rparr>)))))"

section \<open>The specification's notions\<close>

text \<open>
  The Slot Generator as the specification words it: the candidate start times run from
  \<open>startTime\<close> to \<open>endTime - 60\<close> inclusive in steps of 60 minutes; a candidate \<open>t\<close> is dropped
  when some booking has \<open>t < bookedStart + bookedDuration\<close> and \<open>t + 60 > bookedStart\<close>.
\<close>

definition spec_candidates :: "int \<Rightarrow> int \<Rightarrow> int list" where
  "spec_candidates startTime endTime =
     [t \<leftarrow> [startTime .. endTime - 60]. (t - startTime) mod 60 = 0]"

definition spec_overlap :: "(booking \<Rightarrow> int) \<Rightarrow> booking list \<Rightarrow> int \<Rightarrow> bool" where
  "spec_overlap bookedStart bks t \<longleftrightarrow>
     (\<exists>bk \<in> set bks. t < bookedStart bk + duration bk \<and> t + 60 > bookedStart bk)"

text \<open>
  "HH:MM" read and written by the book: a time string is two digits, a colon and two digits
  (possibly followed by a colon and more, the seconds of a stored time) and stands for
  \<open>60 * HH + MM\<close> minutes since midnight; the label of \<open>t\<close> minutes is the two digits of
  \<open>t div 60\<close>, a colon, and the two digits of \<open>t mod 60\<close>.
\<close>

definition spec_digit :: "char \<Rightarrow> int option" where
  "spec_digit c = map_of (zip ''0123456789'' [0 .. 9]) c"

fun spec_hhmm :: "string \<Rightarrow> int option" where
  "spec_hhmm (h1 # h2 # c # m1 # m2 # rest) =
     (case (spec_digit h1, spec_digit h2, spec_digit m1, spec_digit m2) of
        (Some a, Some b, Some d, Some e) \<Rightarrow>
          if c = CHR '':'' \<and> (case rest of [] \<Rightarrow> True | r # _ \<Rightarrow> r = CHR '':'')
          then Some (60 * (10 * a + b) + (10 * d + e)) else None
      | _ \<Rightarrow> None)"
| "spec_hhmm _ = None"

definition spec_digitChar :: "int \<Rightarrow> char" where
  "spec_digitChar n = ''0123456789'' ! nat n"

definition spec_label :: "int \<Rightarrow> string" where
  "spec_label t =
     [spec_digitChar (t div 60 div 10), spec_digitChar (t div 60 mod 10), CHR '':'',
      spec_digitChar (t mod 60 div 10), spec_digitChar (t mod 60 mod 10)]"

definition spec_slots :: "(booking \<Rightarrow> int) \<Rightarrow> int \<Rightarrow> int \<Rightarrow> booking list \<Rightarrow> string list" where
  "spec_slots bookedStart startTime endTime bks =
     map spec_label [t \<leftarrow> spec_candidates startTime endTime. \<not> spec_overlap bookedStart bks t]"

text \<open>
  "Yesterday end-of-day" for the sweep running at \<open>now\<close>: the last millisecond before the
  local day of \<open>now\<close> begins.
\<close>

definition spec_endOfYesterday :: "timestamp \<Rightarrow> timestamp" where
  "spec_endOfYesterday now = 86400000 * (now div 86400000) - 1"

text \<open>
  The booking invariant of the data model: two bookings clash when they are for the same
  therapist and calendar date, both pending or confirmed, and their intervals
  \<open>[time, time + duration)\<close> overlap.
\<close>

definition sameDay :: "timestamp \<Rightarrow> timestamp \<Rightarrow> bool" where
  "sameDay d1 d2 \<longleftrightarrow> d1 div 86400000 = d2 div 86400000"

definition bookingsClash :: "booking \<Rightarrow> booking \<Rightarrow> bool" where
  "bookingsClash a b \<longleftrightarrow>
     therapistId a = therapistId b \<and>
     sameDay (sessionDate a) (sessionDate b) \<and>
     (status a = Pending \<or> status a = Confirmed) \<and>
     (status b = Pending \<or> status b = Confirmed) \<and>
     (case (spec_hhmm (sessionTime a), spec_hhmm (sessionTime b)) of
        (Some s1, Some s2) \<Rightarrow> s1 < s2 + duration b \<and> s2 < s1 + duration a
      | _ \<Rightarrow> False)"

fun noDoubleBooking :: "booking list \<Rightarrow> bool" where
  "noDoubleBooking [] = True"
| "noDoubleBooking (bk # bks) = (list_all (\<lambda>c. \<not> bookingsClash bk c) bks \<and> noDoubleBooking bks)"


definition oneSessionPerBooking :: "database \<Rightarrow> bool" where
  "oneSessionPerBooking db \<longleftrightarrow> distinct (map bookingId (sessions db))"

section \<open>A small database\<close>

text \<open>The \<^verbatim>\<open>defaultValue\<close> of the Therapist model's \<^verbatim>\<open>availability\<close> column.\<close>

definition defaultAvailability :: "string \<rightharpoonup> dayAvailability" where
  "defaultAvailability =
     [''monday'' \<mapsto> \<lparr>av_start = ''09:00'', av_end = ''17:00'', av_available = True\<rparr>,
      ''tuesday'' \<mapsto> \<lparr>av_start = ''09:00'', av_end = ''17:00'', av_available = True\<rparr>,
      ''wednesday'' \<mapsto> \<lparr>av_start = ''09:00'', av_end = ''17:00'', av_available = True\<rparr>,
      ''thursday'' \<mapsto> \<lparr>av_start = ''09:00'', av_end = ''17:00'', av_available = True\<rparr>,
      ''friday'' \<mapsto> \<lparr>av_start = ''09:00'', av_end = ''17:00'', av_available = True\<rparr>,
      ''saturday'' \<mapsto> \<lparr>av_start = ''09:00'', av_end = ''13:00'', av_available = False\<rparr>,
      ''sunday'' \<mapsto> \<lparr>av_start = ''09:00'', av_end = ''13:00'', av_available = False\<rparr>]"

definition drSmith :: therapist where
  "drSmith = \<lparr>t_id = 1, userId = 10, isVerified = True, availability = defaultAvailability\<rparr>"

text \<open>A therapist whose Monday window, 09:00 to 09:30, is shorter than one slot.\<close>

definition drBrief :: therapist where
  "drBrief =
     \<lparr>t_id = 2, userId = 11, isVerified = True,
      availability = [''monday'' \<mapsto> \<lparr>av_start = ''09:00'', av_end = ''09:30'', av_available = True\<rparr>]\<rparr>"

definition alice :: user where
  "alice = \<lparr>u_id = 20, u_role = Patient\<rparr>"

definition bob :: user where
  "bob = \<lparr>u_id = 21, u_role = Patient\<rparr>"

definition smithUser :: user where
  "smithUser = \<lparr>u_id = 10, u_role = TherapistRole\<rparr>"

text \<open>Monday 2024-01-08, 00:00: day 19730 after 1970-01-01.\<close>

definition monday8 :: timestamp where
  "monday8 = 19730 * 86400000"

text \<open>Alice's booking with Dr Smith on that Monday, 10:00 to 11:00.\<close>

definition bookingAt10 :: booking where
  "bookingAt10 =
     \<lparr> b_id = 1, patientId = 20, therapistId = 1, sessionDate = monday8,
       sessionTime = ''10:00:00'', duration = 60, status = Pending, sessionType = ''video'',
       meetingLink = None, bookingNotes = None, cancellationReason = None,
       cancelledAt = None, cancelledBy = None, reminderSent = False \<rparr>"

definition clinic :: database where
  "clinic = \<lparr>bookings = [bookingAt10], therapists = [drSmith, drBrief], sessions = []\<rparr>"

text \<open>The same clinic with Alice's booking confirmed, and with it completed.\<close>

definition confirmedClinic :: database where
  "confirmedClinic = clinic\<lparr>bookings := [bookingAt10\<lparr>status := Confirmed\<rparr>]\<rparr>"

definition completedClinic :: database where
  "completedClinic = clinic\<lparr>bookings := [bookingAt10\<lparr>status := Completed\<rparr>]\<rparr>"

text \<open>
  The clinic after Bob booked the same hour earlier and cancelled: his booking (key 3) is
  still stored, cancelled, beside Alice's pending one.
\<close>

definition rebookedClinic :: database where
  "rebookedClinic =
     clinic\<lparr>bookings := [bookingAt10,
                           bookingAt10\<lparr>b_id := 3, patientId := 21, status := Cancelled\<rparr>]\<rparr>"

text \<open>
  A request for a session with Dr Smith on that Monday at the given time, default length:
  as the route hands it to createBooking (the date as a \<^verbatim>\<open>Date\<close>), and as a direct call with
  the date string.
\<close>

definition requestAt :: "string \<Rightarrow> bookingRequest" where
  "requestAt time =
     \<lparr> req_therapistId = 1, req_sessionDate = DateVal monday8, req_sessionTime = time,
       req_duration = None, req_sessionType = None, req_notes = None \<rparr>"

definition directRequestAt :: "string \<Rightarrow> bookingRequest" where
  "directRequestAt time =
     \<lparr> req_therapistId = 1, req_sessionDate = Str ''2024-01-08'', req_sessionTime = time,
       req_duration = None, req_sessionType = None, req_notes = None \<rparr>"

text \<open>
  The engine on a server whose local time is UTC. \<open>dateToStringUTC\<close> is
  \<^verbatim>\<open>Date.prototype.toString()\<close> there, for the years 1970 to 9999: week day, month, day of
  the month, year and time, with the calendar date computed from the day number.
\<close>

definition civilFromDays :: "int \<Rightarrow> int \<times> int \<times> int" where
  "civilFromDays days =
     (let z = days + 719468;
          era = z div 146097;
          doe = z mod 146097;
          yoe = (doe - doe div 1460 + doe div 36524 - doe div 146096) div 365;
          doy = doe - (365 * yoe + yoe div 4 - yoe div 100);
          mp = (5 * doy + 2) div 153;
          d = doy - (153 * mp + 2) div 5 + 1;
          m = (if mp < 10 then mp + 3 else mp - 9);
          y = yoe + era * 400 + (if m \<le> 2 then 1 else 0)
      in (y, m, d))"

definition dateToStringUTC :: "timestamp \<Rightarrow> string" where
  "dateToStringUTC t =
     (let (y, m, d) = civilFromDays (t div 86400000);
          ms = t mod 86400000
      in [''Sun'', ''Mon'', ''Tue'', ''Wed'', ''Thu'', ''Fri'', ''Sat''] ! getDay t @ '' '' @
         [''Jan'', ''Feb'', ''Mar'', ''Apr'', ''May'', ''Jun'',
          ''Jul'', ''Aug'', ''Sep'', ''Oct'', ''Nov'', ''Dec''] ! nat (m - 1) @ '' '' @
         padStart2 (toString (nat d)) @ '' '' @ toString (nat y) @ '' '' @
         padStart2 (toString (nat (ms div 3600000))) @ '':'' @
         padStart2 (toString (nat (ms div 60000 mod 60))) @ '':'' @
         padStart2 (toString (nat (ms div 1000 mod 60))) @
         '' GMT+0000 (Coordinated Universal Time)'')"

text \<open>
  \<open>newDateUTC\<close> is the date parser on the strings used below: the 30th of February is read
  as the 1st of March (day 19783, a Friday); every other string, such as a \<^verbatim>\<open>toString()\<close>
  text followed by \<^verbatim>\<open>T10:00\<close>, is unreadable and gives an invalid \<^verbatim>\<open>Date\<close>.
\<close>

definition newDateUTC :: "string \<Rightarrow> timestamp option" where
  "newDateUTC s =
     (if s = ''2024-01-08'' then Some monday8
      else if s = ''2024-01-08T10:00'' then Some (monday8 + 600 * 60000)
      else if s = ''2024-01-08T10:00:00'' then Some (monday8 + 600 * 60000)
      else if s = ''2024-01-08T10:30'' then Some (monday8 + 630 * 60000)
      else if s = ''2024-01-13'' then Some (monday8 + 5 * 86400000)
      else if s = ''2024-02-30'' then Some (monday8 + 53 * 86400000)
      else None)"

text \<open>
  A validator that, like the route's format check, accepts calendar dates by their shape
  (also the 30th of February) and a week date, which the date parser cannot read.
\<close>

definition isISO8601_example :: "string \<Rightarrow> bool" where
  "isISO8601_example s \<longleftrightarrow>
     s = ''2024-01-08'' \<or> s = ''2024-01-13'' \<or> s = ''2024-02-30'' \<or> s = ''2024-W02-1''"

section \<open>Time strings: reading a label gives back its time\<close>

lemma char_of_48: "char_of (48 :: nat) = CHR ''0''"
  by code_simp

lemma digit_not_colon: "a < 10 \<Longrightarrow> char_of (48 + a :: nat) \<noteq> CHR '':''"
proof
  assume a: "a < 10" and "char_of (48 + a) = CHR '':''"
  then have "(of_char (char_of (48 + a)) :: nat) = of_char (CHR '':'')" by simp
  with a show False by (simp add: of_char_of)
qed

lemma padStart2_toString:
  assumes "n < 100"
  shows "padStart2 (toString n) = [char_of (48 + n div 10), char_of (48 + n mod 10)]"
proof (cases "n < 10")
  case True
  then show ?thesis by (subst toString.simps) (simp add: padStart2_def char_of_48)
next
  case False
  with assms have "n div 10 < 10" by simp
  with False show ?thesis
    by (subst toString.simps, subst toString.simps) (simp add: padStart2_def)
qed

lemma Number_two_digits:
  assumes "a < 10" "b < 10"
  shows "Number [char_of (48 + a :: nat), char_of (48 + b :: nat)] = Some (int (10 * a + b))"
  using assms by (simp add: Number_def isDigit_def digitVal_def of_char_of)

lemma split_colon_digits:
  assumes "a < 10" "b < 10" "c < 10" "d < 10"
  shows "split_colon ([char_of (48 + a :: nat), char_of (48 + b :: nat)] @ '':'' @
                      [char_of (48 + c :: nat), char_of (48 + d :: nat)]) =
         [[char_of (48 + a), char_of (48 + b)], [char_of (48 + c), char_of (48 + d)]]"
  using assms by (simp add: digit_not_colon)

text \<open>
  Every time of day \<open>t\<close> (in minutes, below 100 hours) has the five-character label
  \<open>timeString t\<close>, and \<open>minutesOf\<close> reads \<open>t\<close> back from it.
\<close>

lemma minutesOf_timeString:
  assumes "0 \<le> t" "t < 6000"
  shows "minutesOf (timeString t) = Some t"
proof -
  define h where "h = nat (t div 60)"
  define m where "m = nat (t mod 60)"
  have h: "h < 100" and m: "m < 60" using assms by (auto simp: h_def m_def)
  have nn: "0 \<le> t div 60" using assms by (simp add: pos_imp_zdiv_nonneg_iff)
  have t: "t = int h * 60 + int m" using assms nn by (simp add: h_def m_def)
  have hd: "h div 10 < 10" "h mod 10 < 10" "m div 10 < 10" "m mod 10 < 10"
    using h m by auto
  have "timeString t = [char_of (48 + h div 10), char_of (48 + h mod 10)] @ '':'' @
                       [char_of (48 + m div 10), char_of (48 + m mod 10)]"
    using h m by (simp add: timeString_def h_def[symmetric] m_def[symmetric] padStart2_toString)
  then have "map Number (split_colon (timeString t)) =
             [Some (int (10 * (h div 10) + h mod 10)), Some (int (10 * (m div 10) + m mod 10))]"
    using hd by (simp only: split_colon_digits Number_two_digits list.map)
  then show ?thesis
    by (simp add: minutesOf_def t)
qed


text \<open>
  The numbers \<open>minutesOf\<close> reads are non-negative and, with 60 added, still below \<open>2^53\<close>:
  the slot arithmetic of the code is exact on them.
\<close>

lemma digits_bound:
  assumes "list_all isDigit s" and "0 \<le> acc"
  shows "0 \<le> foldl (\<lambda>n c. 10 * n + digitVal c) acc s \<and>
         foldl (\<lambda>n c. 10 * n + digitVal c) acc s < (acc + 1) * 10 ^ length s"
  using assms
proof (induction s arbitrary: acc)
  case Nil
  then show ?case by simp
next
  case (Cons c s)
  from Cons.prems have rest: "list_all isDigit s" and c: "isDigit c"
    by simp_all
  from c have d: "0 \<le> digitVal c" "digitVal c \<le> 9"
    by (auto simp: isDigit_def digitVal_def)
  let ?acc = "10 * acc + digitVal c"
  have nn: "0 \<le> ?acc" using d Cons.prems(2) by simp
  from Cons.IH [OF rest nn]
  have ih: "0 \<le> foldl (\<lambda>n c. 10 * n + digitVal c) ?acc s"
           "foldl (\<lambda>n c. 10 * n + digitVal c) ?acc s < (?acc + 1) * 10 ^ length s"
    by simp_all
  have "?acc + 1 \<le> (acc + 1) * 10" using d by simp
  then have "(?acc + 1) * 10 ^ length s \<le> ((acc + 1) * 10) * 10 ^ length s"
    by (rule mult_right_mono) simp
  also have "\<dots> = (acc + 1) * 10 ^ length (c # s)" by simp
  finally have "foldl (\<lambda>n c. 10 * n + digitVal c) ?acc s < (acc + 1) * 10 ^ length (c # s)"
    using ih(2) by (rule less_le_trans [rotated])
  moreover have "foldl (\<lambda>n c. 10 * n + digitVal c) acc (c # s)
                   = foldl (\<lambda>n c. 10 * n + digitVal c) ?acc s"
    by simp
  ultimately show ?case using ih(1) by (simp only:) 
qed

lemma Number_range:
  assumes "Number s = Some n"
  shows "0 \<le> n \<and> n < 10 ^ 14"
proof -
  from assms have dg: "list_all isDigit s" and len: "length s \<le> 14"
    and n: "n = foldl (\<lambda>n c. 10 * n + digitVal c) 0 s"
    by (auto simp: Number_def split: if_splits)
  from digits_bound [OF dg, of 0] n have "0 \<le> n" "n < 10 ^ length s" by simp_all
  moreover have "(10::int) ^ length s \<le> 10 ^ 14"
    using len by (intro power_increasing) simp_all
  ultimately show ?thesis by simp
qed

lemma minutesOf_exact:
  assumes "minutesOf s = Some m"
  shows "0 \<le> m \<and> m + 60 < 2 ^ 53"
proof -
  from assms obtain hs ms hv mv where
    "Number hs = Some hv" "Number ms = Some mv" "m = hv * 60 + mv"
    by (auto simp: minutesOf_def split: list.splits option.splits)
  with Number_range [of hs hv] Number_range [of ms mv] show ?thesis
    by simp
qed

text \<open>\<open>minutesOf\<close> reads every "HH:MM" string, with or without seconds, as the book says.\<close>

lemma spec_digit_table:
  "zip ''0123456789'' [0 .. 9 :: int] =
     [(CHR ''0'', 0), (CHR ''1'', 1), (CHR ''2'', 2), (CHR ''3'', 3), (CHR ''4'', 4),
      (CHR ''5'', 5), (CHR ''6'', 6), (CHR ''7'', 7), (CHR ''8'', 8), (CHR ''9'', 9)]"
  by code_simp

lemma spec_digit_reads:
  assumes "spec_digit c = Some a"
  shows "isDigit c \<and> digitVal c = a \<and> c \<noteq> CHR '':'' \<and> 0 \<le> a \<and> a \<le> 9"
  using assms unfolding spec_digit_def spec_digit_table
  by (auto simp: isDigit_def digitVal_def split: if_splits)

lemma Number_pair:
  assumes "spec_digit c1 = Some a" and "spec_digit c2 = Some b"
  shows "Number [c1, c2] = Some (10 * a + b)"
  using spec_digit_reads [OF assms(1)] spec_digit_reads [OF assms(2)]
  by (simp add: Number_def)

lemma minutesOf_reads_hhmm:
  assumes "spec_hhmm s = Some v"
  shows "minutesOf s = Some v"
proof -
  from assms obtain h1 h2 c m1 m2 rest where s: "s = h1 # h2 # c # m1 # m2 # rest"
    by (cases s rule: spec_hhmm.cases) auto
  from assms s obtain a b d e where
    dg: "spec_digit h1 = Some a" "spec_digit h2 = Some b"
        "spec_digit m1 = Some d" "spec_digit m2 = Some e" and
    c: "c = CHR '':''" and
    rest: "rest = [] \<or> (\<exists>r. rest = CHR '':'' # r)" and
    v: "v = 60 * (10 * a + b) + (10 * d + e)"
    by (auto split: option.splits if_splits list.splits)
  have nc: "h1 \<noteq> CHR '':''" "h2 \<noteq> CHR '':''" "m1 \<noteq> CHR '':''" "m2 \<noteq> CHR '':''"
    using dg spec_digit_reads by blast+
  from rest have "\<exists>more. split_colon s = [h1, h2] # [m1, m2] # more"
    using nc by (auto simp: s c)
  then obtain more where "split_colon s = [h1, h2] # [m1, m2] # more" by blast
  then show ?thesis
    by (simp add: minutesOf_def Number_pair [OF dg(1,2)] Number_pair [OF dg(3,4)] v)
qed

lemma spec_hhmm_range:
  assumes "spec_hhmm s = Some v"
  shows "0 \<le> v \<and> v \<le> 6039"
proof -
  from assms obtain h1 h2 c m1 m2 rest where s: "s = h1 # h2 # c # m1 # m2 # rest"
    by (cases s rule: spec_hhmm.cases) auto
  from assms s obtain a b d e where
    dg: "spec_digit h1 = Some a" "spec_digit h2 = Some b"
        "spec_digit m1 = Some d" "spec_digit m2 = Some e" and
    v: "v = 60 * (10 * a + b) + (10 * d + e)"
    by (auto split: option.splits if_splits)
  from dg spec_digit_reads have "0 \<le> a \<and> a \<le> 9" "0 \<le> b \<and> b \<le> 9" "0 \<le> d \<and> d \<le> 9" "0 \<le> e \<and> e \<le> 9"
    by blast+
  with v show ?thesis by simp
qed

text \<open>Below 100 hours the label the loop builds is the "HH:MM" label of the book.\<close>

lemma digit_char: "k < 10 \<Longrightarrow> char_of (48 + k :: nat) = ''0123456789'' ! k"
proof -
  assume "k < 10"
  then consider "k = 0" | "k = 1" | "k = 2" | "k = 3" | "k = 4"
    | "k = 5" | "k = 6" | "k = 7" | "k = 8" | "k = 9"
    by force
  then show ?thesis
  proof cases
    case 1 then show ?thesis by simp code_simp next
    case 2 then show ?thesis by simp code_simp next
    case 3 then show ?thesis by simp code_simp next
    case 4 then show ?thesis by simp code_simp next
    case 5 then show ?thesis by simp code_simp next
    case 6 then show ?thesis by simp code_simp next
    case 7 then show ?thesis by simp code_simp next
    case 8 then show ?thesis by simp code_simp next
    case 9 then show ?thesis by simp code_simp next
    case 10 then show ?thesis by simp code_simp
  qed
qed

lemma timeString_spec_label:
  assumes "0 \<le> t" "t < 6000"
  shows "timeString t = spec_label t"
proof -
  define h where "h = nat (t div 60)"
  define m where "m = nat (t mod 60)"
  have h: "h < 100" and m: "m < 60" using assms by (auto simp: h_def m_def)
  have nn: "0 \<le> t div 60" using assms by (simp add: pos_imp_zdiv_nonneg_iff)
  have hd: "h div 10 < 10" "h mod 10 < 10" "m div 10 < 10" "m mod 10 < 10"
    using h m by auto
  have parts: "nat (t div 60 div 10) = h div 10" "nat (t div 60 mod 10) = h mod 10"
              "nat (t mod 60 div 10) = m div 10" "nat (t mod 60 mod 10) = m mod 10"
    using nn by (simp_all add: h_def m_def nat_div_distrib nat_mod_distrib)
  have "timeString t = [char_of (48 + h div 10), char_of (48 + h mod 10)] @ '':'' @
                       [char_of (48 + m div 10), char_of (48 + m mod 10)]"
    using h m by (simp add: timeString_def h_def[symmetric] m_def[symmetric] padStart2_toString)
  also have "\<dots> = spec_label t"
    unfolding spec_label_def spec_digitChar_def parts
    by (simp only: digit_char [OF hd(1)] digit_char [OF hd(2)] digit_char [OF hd(3)]
          digit_char [OF hd(4)] append.simps)
  finally show ?thesis .
qed

section \<open>The slot loop computes the specified slots\<close>

lemma spec_candidates_sorted: "sorted_wrt (<) (spec_candidates s e)"
  unfolding spec_candidates_def
  by (rule sorted_wrt_filter) (simp add: sorted_wrt_upto)

lemma spec_candidates_stop: "\<not> s + 60 \<le> e \<Longrightarrow> spec_candidates s e = []"
  by (simp add: spec_candidates_def)

lemma spec_candidates_step:
  assumes "s + 60 \<le> e"
  shows "spec_candidates s e = s # spec_candidates (s + 60) e"
proof (rule sorted_distinct_set_unique)
  show "sorted (spec_candidates s e)"
    using spec_candidates_sorted strict_sorted_iff by blast
  show "distinct (spec_candidates s e)"
    using spec_candidates_sorted strict_sorted_iff by blast
  have later: "sorted_wrt (<) (spec_candidates (s + 60) e)"
    by (rule spec_candidates_sorted)
  have above: "\<forall>t \<in> set (spec_candidates (s + 60) e). s < t"
    by (auto simp: spec_candidates_def)
  from later above have "sorted_wrt (<) (s # spec_candidates (s + 60) e)"
    by simp
  then show "sorted (s # spec_candidates (s + 60) e)" "distinct (s # spec_candidates (s + 60) e)"
    using strict_sorted_iff by blast+
  show "set (spec_candidates s e) = set (s # spec_candidates (s + 60) e)"
  proof -
    have "\<And>t. (s \<le> t \<and> t \<le> e - 60 \<and> (t - s) mod 60 = 0) \<longleftrightarrow>
               (t = s \<or> (s + 60 \<le> t \<and> t \<le> e - 60 \<and> (t - (s + 60)) mod 60 = 0))"
      using assms by presburger
    then show ?thesis
      by (auto simp: spec_candidates_def)
  qed
qed

lemma some_js_overlap:
  assumes "\<forall>bk \<in> set bks. minutesOf (sessionTime bk) = Some (bookedStart bk)"
  shows "some_js (slotOverlaps t) bks = Some (spec_overlap bookedStart bks t)"
  using assms
  by (induction bks)
     (auto simp: spec_overlap_def slotOverlaps_def slotDuration_def Let_def split: bool.splits)

lemma slotLoop_kept:
  assumes "\<forall>bk \<in> set bks. minutesOf (sessionTime bk) = Some (bookedStart bk)"
  shows "slotLoop bks e t =
           Some (map timeString [u \<leftarrow> spec_candidates t e. \<not> spec_overlap bookedStart bks u])"
  using assms
proof (induction bks e t rule: slotLoop.induct)
  case (1 bks e t)
  show ?case
  proof (cases "t + slotDuration \<le> e")
    case True
    then have step: "spec_candidates t e = t # spec_candidates (t + 60) e"
      by (simp add: spec_candidates_step slotDuration_def)
    have ov: "some_js (slotOverlaps t) bks = Some (spec_overlap bookedStart bks t)"
      using "1.prems" by (rule some_js_overlap)
    have ih: "slotLoop bks e (t + slotDuration) =
          Some (map timeString [u \<leftarrow> spec_candidates (t + 60) e. \<not> spec_overlap bookedStart bks u])"
      using "1.IH" [OF True ov "1.prems"] by (simp add: slotDuration_def)
    show ?thesis
      using True ov ih by (subst slotLoop.simps) (simp add: step)
  next
    case False
    then show ?thesis
      by (subst slotLoop.simps) (simp add: spec_candidates_stop slotDuration_def)
  qed
qed

lemma slotLoop_empty_window: "\<not> t + 60 \<le> e \<Longrightarrow> slotLoop bks e t = Some []"
  by (subst slotLoop.simps) (simp add: slotDuration_def)



lemma spec_candidates_range: "u \<in> set (spec_candidates s e) \<Longrightarrow> s \<le> u \<and> u \<le> e - 60"
  by (auto simp: spec_candidates_def)

text \<open>
  C2. For start and end times given as "HH:MM" and bookings whose times are "HH:MM" (with or
  without seconds), the Slot Generator returns exactly the "HH:MM" labels of the candidate
  times from start to end minus 60 in steps of 60 minutes that overlap no existing booking
  (\<open>t < bookedStart + bookedDuration\<close> and \<open>t + 60 > bookedStart\<close>), in increasing order of
  time. For 09:00-17:00 without bookings the slots are 09:00, 10:00, ..., 16:00; with one
  booking at 10:00 for 60 minutes the slot 10:00 is left out and 09:00 and 11:00 stay.
\<close>

theorem slot_generator_spec:
  assumes "spec_hhmm start = Some s"
    and "spec_hhmm endStr = Some e"
    and "\<forall>bk \<in> set bks. spec_hhmm (sessionTime bk) = Some (bookedStart bk)"
  shows "availableSlots start endStr bks = Some (spec_slots bookedStart s e bks) \<and>
         sorted_wrt (<) [t \<leftarrow> spec_candidates s e. \<not> spec_overlap bookedStart bks t] \<and>
         availableSlots ''09:00'' ''17:00'' [] =
           Some [''09:00'', ''10:00'', ''11:00'', ''12:00'', ''13:00'', ''14:00'', ''15:00'', ''16:00''] \<and>
         availableSlots ''09:00'' ''17:00'' [bookingAt10] =
           Some [''09:00'', ''11:00'', ''12:00'', ''13:00'', ''14:00'', ''15:00'', ''16:00'']"
proof (intro conjI)
  let ?kept = "[t \<leftarrow> spec_candidates s e. \<not> spec_overlap bookedStart bks t]"
  have reads: "\<forall>bk \<in> set bks. minutesOf (sessionTime bk) = Some (bookedStart bk)"
    using assms(3) minutesOf_reads_hhmm by blast
  have loop: "availableSlots start endStr bks = Some (map timeString ?kept)"
    using assms(1,2) reads
    by (simp add: availableSlots_def minutesOf_reads_hhmm slotLoop_kept)
  have "\<And>u. u \<in> set ?kept \<Longrightarrow> timeString u = spec_label u"
  proof -
    fix u assume "u \<in> set ?kept"
    then have "u \<in> set (spec_candidates s e)" by simp
    then have "s \<le> u \<and> u \<le> e - 60" by (rule spec_candidates_range)
    with spec_hhmm_range [OF assms(1)] spec_hhmm_range [OF assms(2)]
    have "0 \<le> u" "u < 6000" by simp_all
    then show "timeString u = spec_label u" by (rule timeString_spec_label)
  qed
  then have "map timeString ?kept = map spec_label ?kept" by simp
  with loop show "availableSlots start endStr bks = Some (spec_slots bookedStart s e bks)"
    by (simp add: spec_slots_def)
  show "sorted_wrt (<) ?kept"
    by (rule sorted_wrt_filter) (rule spec_candidates_sorted)
  show "availableSlots ''09:00'' ''17:00'' [] =
          Some [''09:00'', ''10:00'', ''11:00'', ''12:00'', ''13:00'', ''14:00'', ''15:00'', ''16:00'']"
    by code_simp
  show "availableSlots ''09:00'' ''17:00'' [bookingAt10] =
          Some [''09:00'', ''11:00'', ''12:00'', ''13:00'', ''14:00'', ''15:00'', ''16:00'']"
    by code_simp
qed

theorem slot_generator_spec_witness:
  "spec_hhmm ''08:30'' = Some 510 \<and> spec_hhmm ''12:45'' = Some 765 \<and>
   spec_hhmm (sessionTime bookingAt10) = Some 600 \<and>
   spec_slots (\<lambda>bk. 600) 510 765 [bookingAt10] = [''08:30'', ''11:30''] \<and>
   availableSlots ''08:30'' ''12:45'' [bookingAt10] = Some [''08:30'', ''11:30'']"
proof -
  have h1: "spec_hhmm ''08:30'' = Some 510" by code_simp
  have h2: "spec_hhmm ''12:45'' = Some 765" by code_simp
  have h3: "spec_hhmm (sessionTime bookingAt10) = Some 600" by code_simp
  have h3': "\<forall>bk \<in> set [bookingAt10]. spec_hhmm (sessionTime bk) = Some ((\<lambda>bk. 600) bk)"
    using h3 by simp
  have h4: "spec_slots (\<lambda>bk. 600) 510 765 [bookingAt10] = [''08:30'', ''11:30'']" by code_simp
  from slot_generator_spec [OF h1 h2 h3']
  have "availableSlots ''08:30'' ''12:45'' [bookingAt10]
          = Some (spec_slots (\<lambda>bk. 600) 510 765 [bookingAt10])"
    by blast
  with h1 h2 h3 h4 show ?thesis by simp
qed

section \<open>The conflict check of createBooking\<close>

lemma day_window:
  fixes t q m :: int
  assumes "0 < m"
  shows "(q * m \<le> t \<and> t \<le> q * m + (m - 1)) \<longleftrightarrow> t div m = q"
proof
  assume a: "q * m \<le> t \<and> t \<le> q * m + (m - 1)"
  have "t = m * q + (t - q * m)" by (simp add: mult.commute)
  moreover have "0 \<le> t - q * m" "t - q * m < m" using a by auto
  ultimately show "t div m = q" by (rule int_div_pos_eq)
next
  assume d: "t div m = q"
  have "t = (t div m) * m + t mod m" by simp
  moreover have "0 \<le> t mod m" "t mod m < m" using assms by auto
  ultimately show "q * m \<le> t \<and> t \<le> q * m + (m - 1)"
    using d by auto
qed

lemma same_day_window:
  "startOfDay d \<le> t \<and> t \<le> endOfDay d \<longleftrightarrow> sameDay t d"
  using day_window [of msPerDay "d div msPerDay" t]
  by (simp add: startOfDay_def endOfDay_def sameDay_def msPerDay_def)

lemma conflictingBooking_None:
  "conflictingBooking db i dt time = None \<longleftrightarrow>
     \<not> (\<exists>bk \<in> set (bookings db). therapistId bk = i \<and> sameDay (sessionDate bk) dt \<and>
          (status bk = Pending \<or> status bk = Confirmed) \<and> pgTime (sessionTime bk) = Some time)"
proof -
  have "\<And>bk. (therapistId bk = i \<and> startOfDay dt \<le> sessionDate bk \<and>
               sessionDate bk \<le> endOfDay dt \<and> pgTime (sessionTime bk) = Some time \<and>
               activeStatus (status bk))
          \<longleftrightarrow> (therapistId bk = i \<and> sameDay (sessionDate bk) dt \<and>
               (status bk = Pending \<or> status bk = Confirmed) \<and>
               pgTime (sessionTime bk) = Some time)"
    using same_day_window [of dt] unfolding activeStatus_def by blast
  then show ?thesis
    unfolding conflictingBooking_def find_None_iff by blast
qed

lemma createBooking_after_guards:
  assumes "findTherapistByPk db (req_therapistId body) = Some th"
    and "isVerified th"
    and "newDate (templateString dateToString (req_sessionDate body) @ ''T'' @
                  req_sessionTime body) = Some dt"
    and "availability th (dayNames ! getDay dt) = Some av"
    and "av_available av"
    and "pgTime (req_sessionTime body) = Some time"
  shows "createBooking dateToString newDate newId db usr body =
           (case conflictingBooking db (req_therapistId body) dt time of
              Some c \<Rightarrow> Some (Inl (BadRequest ''Time slot is already booked''))
            | None \<Rightarrow> insertBooking newDate newId db usr body time)"
  using assms
  by (simp add: createBooking_def dayOfWeekOf_def propertyKey_def Let_def)

lemma insertBooking_no_conflict_error:
  "insertBooking newDate newId db usr body time
     \<noteq> Some (Inl (BadRequest ''Time slot is already booked''))"
  by (simp add: insertBooking_def split: qvalue.splits option.splits)

text \<open>
  When the conflict check is reached (the therapist is found, verified and available on the
  day of the joined date string, which the engine could read), the conflict error is given
  exactly when a pending or confirmed booking of that therapist on that local day is stored
  with the requested time: times are compared, so \<^verbatim>\<open>10:00\<close> meets a stored \<^verbatim>\<open>10:00:00\<close>.
\<close>

lemma conflict_check_when_reached:
  assumes "findTherapistByPk db (req_therapistId body) = Some th"
    and "isVerified th"
    and "newDate (templateString dateToString (req_sessionDate body) @ ''T'' @
                  req_sessionTime body) = Some dt"
    and "availability th (dayNames ! getDay dt) = Some av"
    and "av_available av"
    and "pgTime (req_sessionTime body) = Some time"
  shows "createBooking dateToString newDate newId db usr body
           = Some (Inl (BadRequest ''Time slot is already booked''))
         \<longleftrightarrow> (\<exists>bk \<in> set (bookings db).
                therapistId bk = req_therapistId body \<and>
                sameDay (sessionDate bk) dt \<and>
                (status bk = Pending \<or> status bk = Confirmed) \<and>
                pgTime (sessionTime bk) = Some time)"
proof -
  let ?clash = "\<exists>bk \<in> set (bookings db).
                therapistId bk = req_therapistId body \<and>
                sameDay (sessionDate bk) dt \<and>
                (status bk = Pending \<or> status bk = Confirmed) \<and>
                pgTime (sessionTime bk) = Some time"
  let ?res = "createBooking dateToString newDate newId db usr body"
  have unfolded: "?res =
           (case conflictingBooking db (req_therapistId body) dt time of
              Some c \<Rightarrow> Some (Inl (BadRequest ''Time slot is already booked''))
            | None \<Rightarrow> insertBooking newDate newId db usr body time)"
    using assms by (rule createBooking_after_guards)
  show ?thesis
  proof (cases "conflictingBooking db (req_therapistId body) dt time")
    case None
    then have "\<not> ?clash" unfolding conflictingBooking_None by blast
    moreover have "?res \<noteq> Some (Inl (BadRequest ''Time slot is already booked''))"
      unfolding unfolded None by (simp add: insertBooking_no_conflict_error)
    ultimately show ?thesis by simp
  next
    case (Some c)
    then have "conflictingBooking db (req_therapistId body) dt time \<noteq> None"
      by simp
    then have "?clash" unfolding conflictingBooking_None by blast
    moreover have "?res = Some (Inl (BadRequest ''Time slot is already booked''))"
      unfolding unfolded Some by simp
    ultimately show ?thesis by simp
  qed
qed

text \<open>
  A direct call with the date as a string reaches the check: the request for 10:00 is refused
  for Alice's stored 10:00:00.
\<close>

lemma conflict_check_direct_call:
  "createBooking dateToStringUTC newDateUTC 2 clinic bob (directRequestAt ''10:00'')
     = Some (Inl (BadRequest ''Time slot is already booked''))"
proof -
  let ?req = "directRequestAt ''10:00''"
  have th: "findTherapistByPk clinic (req_therapistId ?req) = Some drSmith"
    by (simp add: directRequestAt_def findTherapistByPk_def clinic_def drSmith_def)
  have ver: "isVerified drSmith" by (simp add: drSmith_def)
  have dt: "newDateUTC (templateString dateToStringUTC (req_sessionDate ?req) @ ''T'' @
                        req_sessionTime ?req) = Some (monday8 + 600 * 60000)"
    by (simp add: newDateUTC_def directRequestAt_def templateString_def)
  have day: "dayNames ! getDay (monday8 + 600 * 60000) = ''monday''"
    by (simp add: dayNames_def getDay_def monday8_def msPerDay_def)
  have av: "availability drSmith (dayNames ! getDay (monday8 + 600 * 60000))
              = Some \<lparr>av_start = ''09:00'', av_end = ''17:00'', av_available = True\<rparr>"
    unfolding day by (simp add: drSmith_def defaultAvailability_def)
  have open_: "av_available \<lparr>av_start = ''09:00'', av_end = ''17:00'', av_available = True\<rparr>"
    by simp
  have tm: "pgTime (req_sessionTime ?req) = Some ''10:00:00''"
    by (simp add: directRequestAt_def) code_simp
  have stored: "pgTime (sessionTime bookingAt10) = Some ''10:00:00''"
    by (simp add: bookingAt10_def) code_simp
  have same: "sameDay (sessionDate bookingAt10) (monday8 + 600 * 60000)"
    by (simp add: sameDay_def bookingAt10_def monday8_def)
  have "\<exists>bk \<in> set (bookings clinic).
          therapistId bk = req_therapistId ?req \<and>
          sameDay (sessionDate bk) (monday8 + 600 * 60000) \<and>
          (status bk = Pending \<or> status bk = Confirmed) \<and>
          pgTime (sessionTime bk) = Some ''10:00:00''"
    using same stored by (simp add: clinic_def) (simp add: bookingAt10_def directRequestAt_def)
  with conflict_check_when_reached
         [where newDate = newDateUTC and dateToString = dateToStringUTC and newId = 2 and usr = bob,
          OF th ver dt av open_ tm]
  show ?thesis by blast
qed

text \<open>
  A request as the route delivers it carries the date as a \<^verbatim>\<open>Date\<close>. When the engine cannot
  read that date's text joined with \<^verbatim>\<open>T\<close> and the time, the day lookup finds no day and the
  conflict check is never reached: the conflict error is never the answer.
\<close>

lemma routed_request_never_conflict_error:
  assumes "req_sessionDate body = DateVal d"
    and "newDate (dateToString d @ ''T'' @ req_sessionTime body) = None"
  shows "createBooking dateToString newDate newId db usr body
           \<noteq> Some (Inl (BadRequest ''Time slot is already booked''))"
  using assms
  by (simp add: createBooking_def templateString_def dayOfWeekOf_def Let_def
           split: option.splits)

text \<open>
  C3. Alice's pending booking with Dr Smith on Monday 2024-01-08 at 10:00 is stored. Bob's
  request for the same therapist, day and time, as the route hands it to createBooking, is
  not answered with the conflict error: the joined date string is unreadable, no day is
  found, and the answer is that the therapist is not available on this day.
\<close>

theorem createBooking_routed_misses_conflict:
  "bookings clinic = [bookingAt10] \<and>
   therapistId bookingAt10 = req_therapistId (requestAt ''10:00'') \<and>
   req_sessionDate (requestAt ''10:00'') = DateVal (sessionDate bookingAt10) \<and>
   status bookingAt10 = Pending \<and>
   sessionTime bookingAt10 = ''10:00:00'' \<and>
   req_sessionTime (requestAt ''10:00'') = ''10:00'' \<and>
   templateString dateToStringUTC (req_sessionDate (requestAt ''10:00''))
     = ''Mon Jan 08 2024 00:00:00 GMT+0000 (Coordinated Universal Time)'' \<and>
   createBooking dateToStringUTC newDateUTC 2 clinic bob (requestAt ''10:00'')
     = Some (Inl (BadRequest ''Therapist is not available on this day''))"
proof -
  let ?req = "requestAt ''10:00''"
  have text_: "dateToStringUTC monday8
                 = ''Mon Jan 08 2024 00:00:00 GMT+0000 (Coordinated Universal Time)''"
    by code_simp
  have tmpl: "templateString dateToStringUTC (req_sessionDate ?req)
     = ''Mon Jan 08 2024 00:00:00 GMT+0000 (Coordinated Universal Time)''"
    by (simp add: templateString_def requestAt_def text_)
  have th: "findTherapistByPk clinic (req_therapistId ?req) = Some drSmith"
    by (simp add: requestAt_def findTherapistByPk_def clinic_def drSmith_def)
  have ver: "isVerified drSmith" by (simp add: drSmith_def)
  have unread: "newDateUTC (templateString dateToStringUTC (req_sessionDate ?req) @ ''T'' @
                            req_sessionTime ?req) = None"
    unfolding tmpl by (simp add: newDateUTC_def requestAt_def)
  have noday: "availability drSmith ''undefined'' = None"
    by (simp add: drSmith_def defaultAvailability_def)
  have run: "createBooking dateToStringUTC newDateUTC 2 clinic bob ?req
     = Some (Inl (BadRequest ''Therapist is not available on this day''))"
    using th ver unread noday
    by (simp add: createBooking_def dayOfWeekOf_def propertyKey_def Let_def)
  have facts: "bookings clinic = [bookingAt10]"
    "therapistId bookingAt10 = req_therapistId ?req"
    "req_sessionDate ?req = DateVal (sessionDate bookingAt10)"
    "status bookingAt10 = Pending"
    "sessionTime bookingAt10 = ''10:00:00''"
    "req_sessionTime ?req = ''10:00''"
    by (simp_all add: clinic_def bookingAt10_def requestAt_def)
  from facts tmpl run show ?thesis by blast
qed


section \<open>The availability query\<close>


lemma getTherapistAvailability_parsed:
  assumes "date = DateVal d \<or> (\<exists>s. date = Str s \<and> s \<noteq> [] \<and> newDate s = Some d)"
  shows "getTherapistAvailability newDate db i date = availabilityFor db i date (Some d)"
  using assms by auto

lemma availabilityFor_found:
  assumes "findTherapistByPk db i = Some th"
  shows "availabilityFor db i date (Some d) =
           (case availability th (dayNames ! getDay d) of
              None \<Rightarrow> Some (Inr (NotAvailable ''Therapist is not available on this day''))
            | Some av \<Rightarrow>
                if \<not> av_available av
                then Some (Inr (NotAvailable ''Therapist is not available on this day''))
                else (case availableSlots (av_start av) (av_end av) (existingBookingsOn db i d) of
                        None \<Rightarrow> None
                      | Some slots \<Rightarrow>
                          Some (Inr (Available date (dayNames ! getDay d) slots
                                       (av_start av, av_end av)))))"
  using assms
  by (simp add: availabilityFor_def dayOfWeekOf_def propertyKey_def Let_def split: option.splits)


text \<open>
  C9. When the day's record is available but its window is shorter than one 60-minute slot
  (also when the end is at or before the start), the answer is still the available one, with
  an empty slot list. The window's times \<open>s\<close> and \<open>e\<close> are the minutes since midnight of its
  start and end strings: for an "HH:MM" string, 60 times HH plus MM.
\<close>

theorem short_window_no_slots:
  assumes "findTherapistByPk db i = Some th"
    and "date = DateVal d \<or> (\<exists>s. date = Str s \<and> s \<noteq> [] \<and> newDate s = Some d)"
    and "availability th (dayNames ! getDay d) = Some av"
    and "av_available av"
    and "minutesOf (av_start av) = Some s"
    and "minutesOf (av_end av) = Some e"
    and "e - s < 60"
  shows "getTherapistAvailability newDate db i date
           = Some (Inr (Available date (dayNames ! getDay d) [] (av_start av, av_end av))) \<and>
         (\<forall>v. spec_hhmm (av_start av) = Some v \<longrightarrow> v = s) \<and>
         (\<forall>v. spec_hhmm (av_end av) = Some v \<longrightarrow> v = e)"
proof (intro conjI allI impI)
  have "slotLoop (existingBookingsOn db i d) e s = Some []"
    using assms(7) by (simp add: slotLoop_empty_window)
  then have "availableSlots (av_start av) (av_end av) (existingBookingsOn db i d) = Some []"
    using assms(5,6) by (simp add: availableSlots_def)
  then show "getTherapistAvailability newDate db i date
           = Some (Inr (Available date (dayNames ! getDay d) [] (av_start av, av_end av)))"
    using assms(1-4)
    by (simp add: getTherapistAvailability_parsed availabilityFor_found)
next
  fix v assume "spec_hhmm (av_start av) = Some v"
  then have "minutesOf (av_start av) = Some v" by (rule minutesOf_reads_hhmm)
  with assms(5) show "v = s" by simp
next
  fix v assume "spec_hhmm (av_end av) = Some v"
  then have "minutesOf (av_end av) = Some v" by (rule minutesOf_reads_hhmm)
  with assms(6) show "v = e" by simp
qed

lemma availabilityFor_no_date_error:
  "availabilityFor db i date requestedDate \<noteq> Some (Inl ValidationFailed) \<and>
   availabilityFor db i date requestedDate
     \<noteq> Some (Inl (BadRequest ''Date parameter is required (YYYY-MM-DD)''))"
  by (simp add: availabilityFor_def Let_def split: option.splits)

text \<open>
  C8, as amended. On the availability route a request is refused with a 400 for its date,
  before the therapist, the schedule or the bookings are looked at, exactly in three cases:
  the \<^verbatim>\<open>date\<close> parameter is missing, the route's validator refuses the string, or the
  validator accepts it and the date parser cannot read it. A string the validator accepts
  and the parser reads is answered for the date the parser gives.
\<close>

theorem availabilityRoute_date_gate:
  "(availabilityRoute isISO8601 newDate db i rawDate = Some (Inl ValidationFailed)
      \<longleftrightarrow> rawDate = None \<or> (\<exists>s. rawDate = Some s \<and> \<not> isISO8601 s)) \<and>
   (availabilityRoute isISO8601 newDate db i rawDate
        = Some (Inl (BadRequest ''Date parameter is required (YYYY-MM-DD)''))
      \<longleftrightarrow> (\<exists>s. rawDate = Some s \<and> isISO8601 s \<and> newDate s = None)) \<and>
   (\<forall>s d. rawDate = Some s \<and> isISO8601 s \<and> newDate s = Some d \<longrightarrow>
      availabilityRoute isISO8601 newDate db i rawDate
        = availabilityFor db i (DateVal d) (Some d))"
proof (cases rawDate)
  case None
  then show ?thesis by (simp add: availabilityRoute_def)
next
  case (Some s)
  show ?thesis
  proof (cases "isISO8601 s")
    case False
    with Some show ?thesis by (simp add: availabilityRoute_def)
  next
    case True
    show ?thesis
    proof (cases "newDate s")
      case None
      with Some True show ?thesis by (simp add: availabilityRoute_def toDate_def)
    next
      case (Some d)
      have "availabilityRoute isISO8601 newDate db i rawDate
              = availabilityFor db i (DateVal d) (Some d)"
        using \<open>rawDate = Some s\<close> True Some by (simp add: availabilityRoute_def toDate_def)
      with \<open>rawDate = Some s\<close> True Some availabilityFor_no_date_error [of db i "DateVal d" "Some d"]
      show ?thesis by simp
    qed
  qed
qed

lemma monday8_day: "dayNames ! getDay monday8 = ''monday''"
  by (simp add: dayNames_def getDay_def monday8_def msPerDay_def)

lemma saturday13_day: "dayNames ! getDay (monday8 + 5 * 86400000) = ''saturday''"
  by (simp add: dayNames_def getDay_def monday8_def msPerDay_def)

lemma clinic_drSmith: "findTherapistByPk clinic 1 = Some drSmith"
  by (simp add: findTherapistByPk_def clinic_def drSmith_def)

lemma clinic_drBrief: "findTherapistByPk clinic 2 = Some drBrief"
  by (simp add: findTherapistByPk_def clinic_def drSmith_def drBrief_def)


theorem short_window_no_slots_witness:
  "findTherapistByPk clinic 2 = Some drBrief \<and>
   availability drBrief (dayNames ! getDay monday8)
     = Some \<lparr>av_start = ''09:00'', av_end = ''09:30'', av_available = True\<rparr> \<and>
   minutesOf ''09:00'' = Some 540 \<and> minutesOf ''09:30'' = Some 570 \<and>
   spec_hhmm ''09:00'' = Some 540 \<and> spec_hhmm ''09:30'' = Some 570 \<and>
   getTherapistAvailability newDateUTC clinic 2 (DateVal monday8)
     = Some (Inr (Available (DateVal monday8) ''monday'' [] (''09:00'', ''09:30'')))"
proof -
  let ?av = "\<lparr>av_start = ''09:00'', av_end = ''09:30'', av_available = True\<rparr>"
  have h2: "DateVal monday8 = DateVal monday8 \<or>
              (\<exists>s. DateVal monday8 = Str s \<and> s \<noteq> [] \<and> newDateUTC s = Some monday8)"
    by simp
  have h3: "availability drBrief (dayNames ! getDay monday8) = Some ?av"
    unfolding monday8_day by (simp add: drBrief_def)
  have h4: "av_available ?av" by simp
  have m1: "minutesOf ''09:00'' = Some 540" by code_simp
  have m2: "minutesOf ''09:30'' = Some 570" by code_simp
  have s1: "spec_hhmm ''09:00'' = Some 540" by code_simp
  have s2: "spec_hhmm ''09:30'' = Some 570" by code_simp
  have h5: "minutesOf (av_start ?av) = Some 540" using m1 by simp
  have h6: "minutesOf (av_end ?av) = Some 570" using m2 by simp
  have h7: "(570::int) - 540 < 60" by simp
  have "getTherapistAvailability newDateUTC clinic 2 (DateVal monday8)
     = Some (Inr (Available (DateVal monday8) ''monday'' [] (''09:00'', ''09:30'')))"
    using short_window_no_slots [OF clinic_drBrief h2 h3 h4 h5 h6 h7]
    by (simp add: monday8_day)
  with clinic_drBrief h3 m1 m2 s1 s2 show ?thesis by blast
qed

theorem availabilityRoute_date_gate_witness:
  "availabilityRoute isISO8601_example newDateUTC clinic 1 None = Some (Inl ValidationFailed) \<and>
   \<not> isISO8601_example ''next monday'' \<and>
   availabilityRoute isISO8601_example newDateUTC clinic 1 (Some ''next monday'')
     = Some (Inl ValidationFailed) \<and>
   isISO8601_example ''2024-W02-1'' \<and> newDateUTC ''2024-W02-1'' = None \<and>
   availabilityRoute isISO8601_example newDateUTC clinic 1 (Some ''2024-W02-1'')
     = Some (Inl (BadRequest ''Date parameter is required (YYYY-MM-DD)'')) \<and>
   isISO8601_example ''2024-01-13'' \<and> newDateUTC ''2024-01-13'' = Some (monday8 + 5 * 86400000) \<and>
   availabilityRoute isISO8601_example newDateUTC clinic 1 (Some ''2024-01-13'')
     = Some (Inr (NotAvailable ''Therapist is not available on this day''))"
proof -
  note gate = availabilityRoute_date_gate [of isISO8601_example newDateUTC clinic 1]
  have r1: "availabilityRoute isISO8601_example newDateUTC clinic 1 None
              = Some (Inl ValidationFailed)"
    using gate [of None] by blast
  have v2: "\<not> isISO8601_example ''next monday''" by (simp add: isISO8601_example_def)
  have r2: "availabilityRoute isISO8601_example newDateUTC clinic 1 (Some ''next monday'')
              = Some (Inl ValidationFailed)"
    using gate [of "Some ''next monday''"] v2 by blast
  have v3: "isISO8601_example ''2024-W02-1''" by (simp add: isISO8601_example_def)
  have p3: "newDateUTC ''2024-W02-1'' = None" by (simp add: newDateUTC_def)
  have r3: "availabilityRoute isISO8601_example newDateUTC clinic 1 (Some ''2024-W02-1'')
              = Some (Inl (BadRequest ''Date parameter is required (YYYY-MM-DD)''))"
    using gate [of "Some ''2024-W02-1''"] v3 p3 by blast
  have v4: "isISO8601_example ''2024-01-13''" by (simp add: isISO8601_example_def)
  have p4: "newDateUTC ''2024-01-13'' = Some (monday8 + 5 * 86400000)"
    by (simp add: newDateUTC_def)
  have sat: "availability drSmith (dayNames ! getDay (monday8 + 5 * 86400000))
     = Some \<lparr>av_start = ''09:00'', av_end = ''13:00'', av_available = False\<rparr>"
    unfolding saturday13_day by (simp add: drSmith_def defaultAvailability_def)
  have "availabilityFor clinic 1 (DateVal (monday8 + 5 * 86400000)) (Some (monday8 + 5 * 86400000))
          = Some (Inr (NotAvailable ''Therapist is not available on this day''))"
    unfolding availabilityFor_found [OF clinic_drSmith] sat by simp
  moreover have "availabilityRoute isISO8601_example newDateUTC clinic 1 (Some ''2024-01-13'')
          = availabilityFor clinic 1 (DateVal (monday8 + 5 * 86400000))
              (Some (monday8 + 5 * 86400000))"
    using gate [of "Some ''2024-01-13''"] v4 p4 by blast
  ultimately have r4: "availabilityRoute isISO8601_example newDateUTC clinic 1 (Some ''2024-01-13'')
     = Some (Inr (NotAvailable ''Therapist is not available on this day''))"
    by simp
  from r1 v2 r2 v3 p3 r3 v4 p4 r4 show ?thesis by blast
qed

text \<open>
  C8, as stated, fails: the 30th of February is no calendar date, yet the request passes the
  route's format check, the engine reads it as Friday the 1st of March, and the answer is
  that Friday's slot list.
\<close>

theorem availabilityRoute_accepts_february_30:
  "isISO8601_example ''2024-02-30'' \<and>
   newDateUTC ''2024-02-30'' = Some (monday8 + 53 * 86400000) \<and>
   availabilityRoute isISO8601_example newDateUTC clinic 1 (Some ''2024-02-30'')
     = Some (Inr (Available (DateVal (monday8 + 53 * 86400000)) ''friday''
                   [''09:00'', ''10:00'', ''11:00'', ''12:00'', ''13:00'', ''14:00'', ''15:00'',
                    ''16:00'']
                   (''09:00'', ''17:00'')))"
proof -
  let ?fri = "monday8 + 53 * 86400000"
  have v: "isISO8601_example ''2024-02-30''" by (simp add: isISO8601_example_def)
  have p: "newDateUTC ''2024-02-30'' = Some ?fri" by (simp add: newDateUTC_def)
  have day: "dayNames ! getDay ?fri = ''friday''"
    by (simp add: dayNames_def getDay_def monday8_def msPerDay_def)
  have av: "availability drSmith (dayNames ! getDay ?fri)
     = Some \<lparr>av_start = ''09:00'', av_end = ''17:00'', av_available = True\<rparr>"
    unfolding day by (simp add: drSmith_def defaultAvailability_def)
  have existing: "existingBookingsOn clinic 1 ?fri = []"
    by (simp add: existingBookingsOn_def clinic_def bookingAt10_def startOfDay_def endOfDay_def
          monday8_def msPerDay_def)
  have slots: "availableSlots ''09:00'' ''17:00'' []
     = Some [''09:00'', ''10:00'', ''11:00'', ''12:00'', ''13:00'', ''14:00'', ''15:00'', ''16:00'']"
    by code_simp
  have route: "availabilityRoute isISO8601_example newDateUTC clinic 1 (Some ''2024-02-30'')
          = availabilityFor clinic 1 (DateVal ?fri) (Some ?fri)"
    using v p by (simp add: availabilityRoute_def toDate_def)
  have "availabilityFor clinic 1 (DateVal ?fri) (Some ?fri)
     = Some (Inr (Available (DateVal ?fri) ''friday''
                   [''09:00'', ''10:00'', ''11:00'', ''12:00'', ''13:00'', ''14:00'', ''15:00'',
                    ''16:00'']
                   (''09:00'', ''17:00'')))"
    unfolding availabilityFor_found [OF clinic_drSmith] av
    by (simp only: option.case dayAvailability.simps simp_thms if_False existing slots day)
  with v p route show ?thesis by simp
qed



section \<open>Cancelling and updating a booking\<close>

lemma find_key:
  "find (\<lambda>x. key x = i) xs = Some y \<Longrightarrow> key y = i \<and> y \<in> set xs"
  by (induction xs) (auto split: if_splits)

lemma find_after_replace:
  "find (\<lambda>x. key x = i) xs = Some y \<Longrightarrow> key y' = i \<Longrightarrow>
   find (\<lambda>x. key x = i) (map (\<lambda>x. if key x = key y' then y' else x) xs) = Some y'"
  by (induction xs) (auto split: if_splits)

lemma find_other_replace:
  "j \<noteq> key y' \<Longrightarrow>
   find (\<lambda>x. key x = j) (map (\<lambda>x. if key x = key y' then y' else x) xs) = find (\<lambda>x. key x = j) xs"
  by (induction xs) auto

lemma findBookingByPk_key: "findBookingByPk db i = Some bk \<Longrightarrow> b_id bk = i"
  unfolding findBookingByPk_def by (drule find_key) simp

lemma findBookingByPk_saveBooking:
  assumes "findBookingByPk db i = Some bk" and "b_id bk' = i"
  shows "findBookingByPk (saveBooking db bk') i = Some bk'"
proof -
  from assms
  have "find (\<lambda>x. b_id x = i) (map (\<lambda>x. if b_id x = b_id bk' then bk' else x) (bookings db))
          = Some bk'"
    unfolding findBookingByPk_def by (rule find_after_replace)
  then show ?thesis
    by (simp add: findBookingByPk_def saveBooking_def)
qed

lemma findBookingByPk_saveBooking_other:
  assumes "j \<noteq> b_id bk'"
  shows "findBookingByPk (saveBooking db bk') j = findBookingByPk db j"
proof -
  from assms
  have "find (\<lambda>x. b_id x = j) (map (\<lambda>x. if b_id x = b_id bk' then bk' else x) (bookings db))
          = find (\<lambda>x. b_id x = j) (bookings db)"
    by (rule find_other_replace)
  then show ?thesis
    by (simp add: findBookingByPk_def saveBooking_def)
qed

lemma saveBooking_others [simp]:
  "therapists (saveBooking db bk') = therapists db" "sessions (saveBooking db bk') = sessions db"
  by (simp_all add: saveBooking_def)

text \<open>
  C6. For a booking that exists and a user allowed to act on it, cancelBooking is refused
  when the status is cancelled or completed (the database is left as it was: no new one is
  returned); in every other status it succeeds, and the stored booking is the old one with
  status cancelled, the cancellation time, the acting user as \<^verbatim>\<open>cancelledBy\<close>, and the reason
  when a non-empty one is supplied. No other booking, therapist or session changes.
\<close>

theorem cancelBooking_rules:
  assumes "findBookingByPk db i = Some bk"
    and "\<not> notAuthorized db usr bk"
  shows "(status bk = Cancelled \<longrightarrow>
            cancelBooking now db usr i reason = Inl (BadRequest ''Booking is already cancelled'')) \<and>
         (status bk = Completed \<longrightarrow>
            cancelBooking now db usr i reason = Inl (BadRequest ''Cannot cancel a completed booking'')) \<and>
         (status bk \<noteq> Cancelled \<and> status bk \<noteq> Completed \<longrightarrow>
            (\<exists>bk' db'. cancelBooking now db usr i reason = Inr (bk', db') \<and>
               bk' = bk\<lparr>status := Cancelled, cancelledAt := Some now,
                        cancelledBy := Some (u_id usr),
                        cancellationReason :=
                          (if truthy reason then reason else cancellationReason bk)\<rparr> \<and>
               findBookingByPk db' i = Some bk' \<and>
               (\<forall>j. j \<noteq> i \<longrightarrow> findBookingByPk db' j = findBookingByPk db j) \<and>
               therapists db' = therapists db \<and> sessions db' = sessions db))"
proof (intro conjI impI)
  assume "status bk = Cancelled"
  then show "cancelBooking now db usr i reason = Inl (BadRequest ''Booking is already cancelled'')"
    using assms by (simp add: cancelBooking_def)
next
  assume "status bk = Completed"
  then show "cancelBooking now db usr i reason = Inl (BadRequest ''Cannot cancel a completed booking'')"
    using assms by (simp add: cancelBooking_def)
next
  assume open_: "status bk \<noteq> Cancelled \<and> status bk \<noteq> Completed"
  define bk' where "bk' = bk\<lparr>status := Cancelled, cancelledAt := Some now,
                        cancelledBy := Some (u_id usr),
                        cancellationReason :=
                          (if truthy reason then reason else cancellationReason bk)\<rparr>"
  have key: "b_id bk' = i" using assms(1) by (simp add: bk'_def findBookingByPk_key)
  have run: "cancelBooking now db usr i reason = Inr (bk', saveBooking db bk')"
    using assms open_ by (simp add: cancelBooking_def bk'_def Let_def)
  have stored: "findBookingByPk (saveBooking db bk') i = Some bk'"
    using assms(1) key by (rule findBookingByPk_saveBooking)
  have others: "\<forall>j. j \<noteq> i \<longrightarrow> findBookingByPk (saveBooking db bk') j = findBookingByPk db j"
    using key by (simp add: findBookingByPk_saveBooking_other)
  show "\<exists>bk' db'. cancelBooking now db usr i reason = Inr (bk', db') \<and>
               bk' = bk\<lparr>status := Cancelled, cancelledAt := Some now,
                        cancelledBy := Some (u_id usr),
                        cancellationReason :=
                          (if truthy reason then reason else cancellationReason bk)\<rparr> \<and>
               findBookingByPk db' i = Some bk' \<and>
               (\<forall>j. j \<noteq> i \<longrightarrow> findBookingByPk db' j = findBookingByPk db j) \<and>
               therapists db' = therapists db \<and> sessions db' = sessions db"
    using run stored others bk'_def by (intro exI [of _ bk'] exI [of _ "saveBooking db bk'"]) simp
qed




lemma alice_may_act: "\<not> notAuthorized db alice (bookingAt10\<lparr>status := st\<rparr>)"
  by (simp add: notAuthorized_def alice_def bookingAt10_def)

lemma clinic_booking: "findBookingByPk clinic 1 = Some bookingAt10"
  by (simp add: findBookingByPk_def clinic_def bookingAt10_def)

lemma completedClinic_booking:
  "findBookingByPk completedClinic 1 = Some (bookingAt10\<lparr>status := Completed\<rparr>)"
  by (simp add: findBookingByPk_def completedClinic_def clinic_def bookingAt10_def)

lemma confirmedClinic_booking:
  "findBookingByPk confirmedClinic 1 = Some (bookingAt10\<lparr>status := Confirmed\<rparr>)"
  by (simp add: findBookingByPk_def confirmedClinic_def clinic_def bookingAt10_def)

theorem cancelBooking_rules_witness:
  "findBookingByPk clinic 1 = Some bookingAt10 \<and>
   \<not> notAuthorized clinic alice bookingAt10 \<and>
   (\<exists>db'. cancelBooking 99 clinic alice 1 (Some ''ill'')
            = Inr (bookingAt10\<lparr>status := Cancelled, cancelledAt := Some 99,
                               cancelledBy := Some 20, cancellationReason := Some ''ill''\<rparr>, db')) \<and>
   findBookingByPk completedClinic 1 = Some (bookingAt10\<lparr>status := Completed\<rparr>) \<and>
   cancelBooking 99 completedClinic alice 1 (Some ''ill'')
     = Inl (BadRequest ''Cannot cancel a completed booking'')"
proof -
  have auth1: "\<not> notAuthorized clinic alice bookingAt10"
    using alice_may_act [of clinic Pending] by (simp add: bookingAt10_def)
  have auth2: "\<not> notAuthorized completedClinic alice (bookingAt10\<lparr>status := Completed\<rparr>)"
    by (rule alice_may_act)
  have st1: "status bookingAt10 \<noteq> Cancelled \<and> status bookingAt10 \<noteq> Completed"
    by (simp add: bookingAt10_def)
  have st2: "status (bookingAt10\<lparr>status := Completed\<rparr>) = Completed" by simp
  from cancelBooking_rules [OF clinic_booking auth1, of 99 "Some ''ill''"] st1
  obtain bk' db' where
    run: "cancelBooking 99 clinic alice 1 (Some ''ill'') = Inr (bk', db')" and
    bk': "bk' = bookingAt10\<lparr>status := Cancelled, cancelledAt := Some 99,
                  cancelledBy := Some (u_id alice),
                  cancellationReason :=
                    (if truthy (Some ''ill'') then Some ''ill'' else cancellationReason bookingAt10)\<rparr>"
    by blast
  have "bk' = bookingAt10\<lparr>status := Cancelled, cancelledAt := Some 99,
                               cancelledBy := Some 20, cancellationReason := Some ''ill''\<rparr>"
    unfolding bk' by (simp add: alice_def truthy_def)
  with run have ok: "\<exists>db'. cancelBooking 99 clinic alice 1 (Some ''ill'')
            = Inr (bookingAt10\<lparr>status := Cancelled, cancelledAt := Some 99,
                               cancelledBy := Some 20, cancellationReason := Some ''ill''\<rparr>, db')"
    by blast
  from cancelBooking_rules [OF completedClinic_booking auth2, of 99 "Some ''ill''"] st2
  have refused: "cancelBooking 99 completedClinic alice 1 (Some ''ill'')
     = Inl (BadRequest ''Cannot cancel a completed booking'')"
    by blast
  from clinic_booking auth1 ok completedClinic_booking refused show ?thesis by blast
qed



section \<open>The no-show sweep\<close>

lemma markNoShows_nth:
  assumes "k < length (bookings db)"
  shows "bookings (markNoShows now db) ! k =
           (if activeStatus (status (bookings db ! k)) \<and> sessionDate (bookings db ! k) < yesterdayEnd now
            then (bookings db ! k)\<lparr>status := NoShow\<rparr> else bookings db ! k)"
  using assms by (auto simp: markNoShows_def)

lemma markNoShows_second_pass:
  assumes "yesterdayEnd now' \<le> yesterdayEnd now"
  shows "markNoShows now' (markNoShows now db) = markNoShows now db"
proof -
  define f :: "timestamp \<Rightarrow> booking \<Rightarrow> booking"
    where "f = (\<lambda>t bk. if sessionDate bk < yesterdayEnd t \<and> activeStatus (status bk)
                    then bk\<lparr>status := NoShow\<rparr> else bk)"
  have idem: "\<And>bk. f now' (f now bk) = f now bk"
    unfolding f_def using assms by (auto simp: activeStatus_def)
  have twice: "f now' \<circ> f now = f now"
    by (rule ext) (simp add: idem)
  have sweep: "\<And>t d. markNoShows t d = d\<lparr>bookings := map (f t) (bookings d)\<rparr>"
    by (simp add: markNoShows_def f_def)
  show ?thesis
    by (simp add: sweep twice)
qed

lemma day_before: "(t - 86400000) div 86400000 = t div 86400000 - (1::int)"
  using div_mult_self1 [of "86400000::int" t "- 1"] by simp

lemma yesterdayEnd_same_day: "sameDay now' now \<Longrightarrow> yesterdayEnd now' = yesterdayEnd now"
  by (simp add: sameDay_def yesterdayEnd_def endOfDay_def msPerDay_def day_before)

lemma yesterdayEnd_spec: "yesterdayEnd now = spec_endOfYesterday now"
  by (simp add: yesterdayEnd_def endOfDay_def msPerDay_def spec_endOfYesterday_def day_before)

text \<open>
  C5. One pass of the sweep keeps every row in place and turns exactly the bookings that are
  pending or confirmed and dated strictly before the end of yesterday (the last millisecond
  before today begins) into no-show, changing nothing else in them; all other bookings, the
  therapists and the sessions stay as they were. A second pass at the same time, or at any
  time of the same day, changes nothing; and a booking swept once is left alone by every
  later pass.
\<close>

theorem markNoShows_sweep:
  "length (bookings (markNoShows now db)) = length (bookings db) \<and>
   (\<forall>k < length (bookings db).
      bookings (markNoShows now db) ! k =
        (if (status (bookings db ! k) = Pending \<or> status (bookings db ! k) = Confirmed) \<and>
            sessionDate (bookings db ! k) < spec_endOfYesterday now
         then (bookings db ! k)\<lparr>status := NoShow\<rparr> else bookings db ! k)) \<and>
   therapists (markNoShows now db) = therapists db \<and>
   sessions (markNoShows now db) = sessions db \<and>
   markNoShows now (markNoShows now db) = markNoShows now db \<and>
   (\<forall>now'. sameDay now' now \<longrightarrow> markNoShows now' (markNoShows now db) = markNoShows now db) \<and>
   (\<forall>now' k. k < length (bookings db) \<and>
              (status (bookings db ! k) = Pending \<or> status (bookings db ! k) = Confirmed) \<and>
              sessionDate (bookings db ! k) < spec_endOfYesterday now \<longrightarrow>
      bookings (markNoShows now' (markNoShows now db)) ! k = bookings (markNoShows now db) ! k)"
proof (intro conjI allI impI)
  show "length (bookings (markNoShows now db)) = length (bookings db)"
    by (simp add: markNoShows_def)
  show "therapists (markNoShows now db) = therapists db"
    by (simp add: markNoShows_def)
  show "sessions (markNoShows now db) = sessions db"
    by (simp add: markNoShows_def)
  show "markNoShows now (markNoShows now db) = markNoShows now db"
    by (simp add: markNoShows_second_pass)
next
  fix k assume "k < length (bookings db)"
  then show "bookings (markNoShows now db) ! k =
        (if (status (bookings db ! k) = Pending \<or> status (bookings db ! k) = Confirmed) \<and>
            sessionDate (bookings db ! k) < spec_endOfYesterday now
         then (bookings db ! k)\<lparr>status := NoShow\<rparr> else bookings db ! k)"
    by (simp add: markNoShows_nth yesterdayEnd_spec activeStatus_def)
next
  fix now' assume "sameDay now' now"
  then show "markNoShows now' (markNoShows now db) = markNoShows now db"
    by (simp add: markNoShows_second_pass yesterdayEnd_same_day)
next
  fix now' k
  assume a: "k < length (bookings db) \<and>
              (status (bookings db ! k) = Pending \<or> status (bookings db ! k) = Confirmed) \<and>
              sessionDate (bookings db ! k) < spec_endOfYesterday now"
  then have first: "bookings (markNoShows now db) ! k = (bookings db ! k)\<lparr>status := NoShow\<rparr>"
    by (simp add: markNoShows_nth yesterdayEnd_spec activeStatus_def)
  have len: "k < length (bookings (markNoShows now db))"
    using a by (simp add: markNoShows_def)
  show "bookings (markNoShows now' (markNoShows now db)) ! k = bookings (markNoShows now db) ! k"
    using markNoShows_nth [OF len, of now'] first by (simp add: activeStatus_def)
qed

theorem markNoShows_sweep_witness:
  "(0::nat) < length (bookings clinic) \<and>
   bookings clinic ! 0 = bookingAt10 \<and>
   status bookingAt10 = Pending \<and>
   sessionDate bookingAt10 = monday8 \<and>
   spec_endOfYesterday (monday8 + 23 * 3600000) = monday8 - 1 \<and>
   bookings (markNoShows (monday8 + 23 * 3600000) clinic) ! 0 = bookingAt10 \<and>
   spec_endOfYesterday (monday8 + 86400000 + 23 * 3600000) = monday8 + 86399999 \<and>
   bookings (markNoShows (monday8 + 86400000 + 23 * 3600000) clinic) ! 0
     = bookingAt10\<lparr>status := NoShow\<rparr> \<and>
   sameDay (monday8 + 86400000 + 23 * 3600000 + 1) (monday8 + 86400000 + 23 * 3600000) \<and>
   markNoShows (monday8 + 86400000 + 23 * 3600000 + 1)
       (markNoShows (monday8 + 86400000 + 23 * 3600000) clinic)
     = markNoShows (monday8 + 86400000 + 23 * 3600000) clinic \<and>
   bookings (markNoShows (monday8 + 30 * 86400000)
       (markNoShows (monday8 + 86400000 + 23 * 3600000) clinic)) ! 0
     = bookings (markNoShows (monday8 + 86400000 + 23 * 3600000) clinic) ! 0"
proof -
  let ?mon = "monday8 + 23 * 3600000"
  let ?tue = "monday8 + 86400000 + 23 * 3600000"
  have k: "(0::nat) < length (bookings clinic)" by (simp add: clinic_def)
  have row: "bookings clinic ! 0 = bookingAt10" by (simp add: clinic_def)
  have st: "status bookingAt10 = Pending" by (simp add: bookingAt10_def)
  have dt: "sessionDate bookingAt10 = monday8" by (simp add: bookingAt10_def)
  have cut1: "spec_endOfYesterday ?mon = monday8 - 1"
    by (simp add: spec_endOfYesterday_def monday8_def)
  have cut2: "spec_endOfYesterday ?tue = monday8 + 86399999"
    by (simp add: spec_endOfYesterday_def monday8_def)
  have day: "sameDay (?tue + 1) ?tue"
    by (simp add: sameDay_def monday8_def)
  from markNoShows_sweep [of ?mon clinic] k
  have "bookings (markNoShows ?mon clinic) ! 0 =
        (if (status (bookings clinic ! 0) = Pending \<or> status (bookings clinic ! 0) = Confirmed) \<and>
            sessionDate (bookings clinic ! 0) < spec_endOfYesterday ?mon
         then (bookings clinic ! 0)\<lparr>status := NoShow\<rparr> else bookings clinic ! 0)"
    by blast
  then have kept: "bookings (markNoShows ?mon clinic) ! 0 = bookingAt10"
    unfolding row cut1 dt by simp
  note facts = markNoShows_sweep [of ?tue clinic]
  have old: "(status (bookings clinic ! 0) = Pending \<or> status (bookings clinic ! 0) = Confirmed) \<and>
             sessionDate (bookings clinic ! 0) < spec_endOfYesterday ?tue"
    unfolding row cut2 dt using st by simp
  from facts k
  have "bookings (markNoShows ?tue clinic) ! 0 =
        (if (status (bookings clinic ! 0) = Pending \<or> status (bookings clinic ! 0) = Confirmed) \<and>
            sessionDate (bookings clinic ! 0) < spec_endOfYesterday ?tue
         then (bookings clinic ! 0)\<lparr>status := NoShow\<rparr> else bookings clinic ! 0)"
    by blast
  with old
  have first: "bookings (markNoShows ?tue clinic) ! 0 = bookingAt10\<lparr>status := NoShow\<rparr>"
    by (simp only: if_True simp_thms row)
  from facts day
  have second: "markNoShows (?tue + 1) (markNoShows ?tue clinic) = markNoShows ?tue clinic"
    by blast
  from facts k old
  have later: "bookings (markNoShows (monday8 + 30 * 86400000) (markNoShows ?tue clinic)) ! 0
     = bookings (markNoShows ?tue clinic) ! 0"
    by blast
  from k row st dt cut1 kept cut2 first day second later show ?thesis by blast
qed

section \<open>Creating a session\<close>

lemma findSessionByBooking_None:
  "findSessionByBooking db i = None \<longleftrightarrow> i \<notin> bookingId ` set (sessions db)"
  by (auto simp: findSessionByBooking_def find_None_iff)

lemma sessions_saveBooking: "sessions (saveBooking db bk') = sessions db"
  by (simp add: saveBooking_def)

lemma createSession_success:
  assumes "createSession now newId db usr body = Inr (se, db')"
  shows "\<exists>bk th. findBookingByPk db (sreq_bookingId body) = Some bk \<and>
           findTherapistByUser db (u_id usr) = Some th \<and> therapistId bk = t_id th \<and>
           status bk = Confirmed \<and>
           findSessionByBooking db (sreq_bookingId body) = None \<and>
           bookingId se = sreq_bookingId body \<and>
           db' = saveBooking (db\<lparr>sessions := sessions db @ [se]\<rparr>) (bk\<lparr>status := Completed\<rparr>)"
  using assms
  by (auto simp: createSession_def Let_def split: option.splits if_splits)

text \<open>
  C10. createSession succeeds only when the booking exists, is confirmed and has no session
  yet; then it adds exactly one session, for that booking, and stores the booking as
  completed, and a database with at most one session per booking stays so. When the booking
  is missing, not confirmed or already has a session the answer is an error, which carries no
  new database. For the booking's own therapist the three conditions are also enough.
\<close>

theorem createSession_once:
  "(\<forall>se db'. createSession now newId db usr body = Inr (se, db') \<longrightarrow>
      (\<exists>bk. findBookingByPk db (sreq_bookingId body) = Some bk \<and>
            status bk = Confirmed \<and>
            findSessionByBooking db (sreq_bookingId body) = None \<and>
            sessions db' = sessions db @ [se] \<and>
            bookingId se = sreq_bookingId body \<and>
            findBookingByPk db' (sreq_bookingId body) = Some (bk\<lparr>status := Completed\<rparr>) \<and>
            (oneSessionPerBooking db \<longrightarrow> oneSessionPerBooking db'))) \<and>
   (findBookingByPk db (sreq_bookingId body) = None \<or>
    (\<exists>bk. findBookingByPk db (sreq_bookingId body) = Some bk \<and> status bk \<noteq> Confirmed) \<or>
    findSessionByBooking db (sreq_bookingId body) \<noteq> None
      \<longrightarrow> (\<exists>e. createSession now newId db usr body = Inl e)) \<and>
   (\<forall>bk th. findBookingByPk db (sreq_bookingId body) = Some bk \<and>
            findTherapistByUser db (u_id usr) = Some th \<and> therapistId bk = t_id th \<and>
            status bk = Confirmed \<and>
            findSessionByBooking db (sreq_bookingId body) = None
      \<longrightarrow> (\<exists>se db'. createSession now newId db usr body = Inr (se, db')))"
proof (intro conjI allI impI)
  fix se db'
  assume run: "createSession now newId db usr body = Inr (se, db')"
  from createSession_success [OF run] obtain bk th where
    found: "findBookingByPk db (sreq_bookingId body) = Some bk" and
    conf: "status bk = Confirmed" and
    fresh: "findSessionByBooking db (sreq_bookingId body) = None" and
    bid: "bookingId se = sreq_bookingId body" and
    db': "db' = saveBooking (db\<lparr>sessions := sessions db @ [se]\<rparr>) (bk\<lparr>status := Completed\<rparr>)"
    by blast
  have sess: "sessions db' = sessions db @ [se]"
    by (simp add: db' sessions_saveBooking)
  have found1: "findBookingByPk (db\<lparr>sessions := sessions db @ [se]\<rparr>) (sreq_bookingId body) = Some bk"
    using found by (simp add: findBookingByPk_def)
  have key: "b_id (bk\<lparr>status := Completed\<rparr>) = sreq_bookingId body"
    using found by (simp add: findBookingByPk_key)
  have stored: "findBookingByPk db' (sreq_bookingId body) = Some (bk\<lparr>status := Completed\<rparr>)"
    unfolding db' using found1 key by (rule findBookingByPk_saveBooking)
  have inv: "oneSessionPerBooking db \<longrightarrow> oneSessionPerBooking db'"
    using fresh bid by (simp add: oneSessionPerBooking_def sess findSessionByBooking_None)
  show "\<exists>bk. findBookingByPk db (sreq_bookingId body) = Some bk \<and>
            status bk = Confirmed \<and>
            findSessionByBooking db (sreq_bookingId body) = None \<and>
            sessions db' = sessions db @ [se] \<and>
            bookingId se = sreq_bookingId body \<and>
            findBookingByPk db' (sreq_bookingId body) = Some (bk\<lparr>status := Completed\<rparr>) \<and>
            (oneSessionPerBooking db \<longrightarrow> oneSessionPerBooking db')"
    using found conf fresh sess bid stored inv by blast
next
  assume "findBookingByPk db (sreq_bookingId body) = None \<or>
    (\<exists>bk. findBookingByPk db (sreq_bookingId body) = Some bk \<and> status bk \<noteq> Confirmed) \<or>
    findSessionByBooking db (sreq_bookingId body) \<noteq> None"
  then show "\<exists>e. createSession now newId db usr body = Inl e"
    by (auto simp: createSession_def Let_def split: option.splits)
next
  fix bk th
  assume "findBookingByPk db (sreq_bookingId body) = Some bk \<and>
            findTherapistByUser db (u_id usr) = Some th \<and> therapistId bk = t_id th \<and>
            status bk = Confirmed \<and>
            findSessionByBooking db (sreq_bookingId body) = None"
  then show "\<exists>se db'. createSession now newId db usr body = Inr (se, db')"
    by (simp add: createSession_def Let_def)
qed

theorem createSession_once_witness:
  "findBookingByPk confirmedClinic 1 = Some (bookingAt10\<lparr>status := Confirmed\<rparr>) \<and>
   findTherapistByUser confirmedClinic (u_id smithUser) = Some drSmith \<and>
   findSessionByBooking confirmedClinic 1 = None \<and>
   oneSessionPerBooking confirmedClinic \<and>
   (\<exists>se db'. createSession 99 5 confirmedClinic smithUser
                 \<lparr>sreq_bookingId = 1, sreq_startTime = None, sreq_therapistNotes = None,
                  sreq_treatmentPlan = None, sreq_goals = None\<rparr> = Inr (se, db') \<and>
              sessions db' = [se] \<and>
              findBookingByPk db' 1 = Some (bookingAt10\<lparr>status := Completed\<rparr>) \<and>
              oneSessionPerBooking db' \<and>
              (\<exists>e. createSession 100 6 db' smithUser
                      \<lparr>sreq_bookingId = 1, sreq_startTime = None, sreq_therapistNotes = None,
                       sreq_treatmentPlan = None, sreq_goals = None\<rparr> = Inl e))"
proof -
  let ?body = "\<lparr>sreq_bookingId = 1, sreq_startTime = None, sreq_therapistNotes = None,
                  sreq_treatmentPlan = None, sreq_goals = None\<rparr>"
  let ?bk = "bookingAt10\<lparr>status := Confirmed\<rparr>"
  have bid: "sreq_bookingId ?body = 1" by simp
  have found: "findBookingByPk confirmedClinic (sreq_bookingId ?body) = Some ?bk"
    unfolding bid by (rule confirmedClinic_booking)
  have th: "findTherapistByUser confirmedClinic (u_id smithUser) = Some drSmith"
    by (simp add: findTherapistByUser_def confirmedClinic_def clinic_def drSmith_def smithUser_def)
  have own: "therapistId ?bk = t_id drSmith" by (simp add: bookingAt10_def drSmith_def)
  have conf: "status ?bk = Confirmed" by simp
  have none: "findSessionByBooking confirmedClinic (sreq_bookingId ?body) = None"
    by (simp add: findSessionByBooking_def confirmedClinic_def clinic_def)
  have inv: "oneSessionPerBooking confirmedClinic"
    by (simp add: oneSessionPerBooking_def confirmedClinic_def clinic_def)
  note first = createSession_once [of 99 5 confirmedClinic smithUser ?body]
  from first found th own conf none
  obtain se db' where run: "createSession 99 5 confirmedClinic smithUser ?body = Inr (se, db')"
    by blast
  from first run obtain bk where
    bk: "findBookingByPk confirmedClinic (sreq_bookingId ?body) = Some bk" and
    sess: "sessions db' = sessions confirmedClinic @ [se]" and
    stored: "findBookingByPk db' (sreq_bookingId ?body) = Some (bk\<lparr>status := Completed\<rparr>)" and
    keeps: "oneSessionPerBooking confirmedClinic \<longrightarrow> oneSessionPerBooking db'"
    by blast
  from bk found have bk_eq: "bk = ?bk" by simp
  have sess': "sessions db' = [se]"
    using sess by (simp add: confirmedClinic_def clinic_def)
  have stored': "findBookingByPk db' 1 = Some (bookingAt10\<lparr>status := Completed\<rparr>)"
    using stored by (simp add: bk_eq)
  have inv': "oneSessionPerBooking db'" using keeps inv by blast
  have "\<exists>bk. findBookingByPk db' (sreq_bookingId ?body) = Some bk \<and> status bk \<noteq> Confirmed"
    using stored' by simp
  with createSession_once [of 100 6 db' smithUser ?body]
  have again: "\<exists>e. createSession 100 6 db' smithUser ?body = Inl e"
    by blast
  from run sess' stored' inv' again
  have "\<exists>se db'. createSession 99 5 confirmedClinic smithUser ?body = Inr (se, db') \<and>
              sessions db' = [se] \<and>
              findBookingByPk db' 1 = Some (bookingAt10\<lparr>status := Completed\<rparr>) \<and>
              oneSessionPerBooking db' \<and>
              (\<exists>e. createSession 100 6 db' smithUser ?body = Inl e)"
    by blast
  with confirmedClinic_booking th none inv show ?thesis by simp
qed

section \<open>The booking invariant\<close>

text \<open>
  C1. The clinic holds Alice's pending booking, 10:00 to 11:00, and Bob's cancelled booking
  for the same therapist, day and hour; it meets the invariant. Bob's update of his booking
  to status pending, a request the route admits, is applied without any look at the other
  bookings: afterwards two pending bookings of one therapist and date overlap, and the
  invariant no longer holds.
\<close>

theorem updateBooking_admits_overlap:
  "noDoubleBooking (bookings rebookedClinic) \<and>
   updateBooking 99 rebookedClinic bob 3
      \<lparr>upd_status = Some ''pending'', upd_notes = None, upd_meetingLink = None,
       upd_cancellationReason = None\<rparr>
     = Inr (bookingAt10\<lparr>b_id := 3, patientId := 21\<rparr>,
            clinic\<lparr>bookings := [bookingAt10, bookingAt10\<lparr>b_id := 3, patientId := 21\<rparr>]\<rparr>) \<and>
   \<not> noDoubleBooking [bookingAt10, bookingAt10\<lparr>b_id := 3, patientId := 21\<rparr>]"
proof -
  let ?body = "\<lparr>upd_status = Some ''pending'', upd_notes = None, upd_meetingLink = None,
       upd_cancellationReason = None\<rparr>"
  let ?old = "bookingAt10\<lparr>b_id := 3, patientId := 21, status := Cancelled\<rparr>"
  let ?new = "bookingAt10\<lparr>b_id := 3, patientId := 21\<rparr>"
  have m: "spec_hhmm (sessionTime bookingAt10) = Some 600" by code_simp
  have inv: "noDoubleBooking (bookings rebookedClinic)"
    by (simp add: rebookedClinic_def bookingsClash_def)
  have found: "findBookingByPk rebookedClinic 3 = Some ?old"
    by (simp add: findBookingByPk_def rebookedClinic_def bookingAt10_def)
  have auth: "\<not> notAuthorized rebookedClinic bob ?old"
    by (simp add: notAuthorized_def bob_def)
  have run: "updateBooking 99 rebookedClinic bob 3 ?body
               = Inr (applyUpdates 99 bob ?body ?old,
                      saveBooking rebookedClinic (applyUpdates 99 bob ?body ?old))"
    using auth by (simp only: updateBooking_def found option.case Let_def if_False)
  have app: "applyUpdates 99 bob ?body ?old = ?new"
    by (simp add: applyUpdates_def statusOfString_def Let_def bookingAt10_def)
  have sv: "saveBooking rebookedClinic ?new = clinic\<lparr>bookings := [bookingAt10, ?new]\<rparr>"
    by (simp add: saveBooking_def rebookedClinic_def bookingAt10_def)
  have res: "updateBooking 99 rebookedClinic bob 3 ?body
               = Inr (?new, clinic\<lparr>bookings := [bookingAt10, ?new]\<rparr>)"
    by (simp only: run app sv)
  have clash: "bookingsClash bookingAt10 ?new"
    using m by (simp add: bookingsClash_def sameDay_def) (simp add: bookingAt10_def)
  then have broken: "\<not> noDoubleBooking [bookingAt10, ?new]" by simp
  from inv res broken show ?thesis by blast
qed

end
